theory Spec2Isabelle
  imports Complex_Main "HOL-Library.Word"
begin

section \<open>Path following library (paths.c)\<close>

text \<open>
  The library computes, for a commanded path segment and the current position, the
  progress along the segment, the direction of travel and the correction towards the
  path. The C code works on \<open>float\<close>; here every \<open>float\<close> is a \<^typ>\<open>real\<close>, so the
  arithmetic is exact: rounding, overflow, infinities and NaN are not part of this model.
  A second model, further down, keeps overflow, the infinities and NaN; the properties of
  directions and error that are stated of every input are proved there.
\<close>

subsection \<open>Data\<close>

text \<open>A point is a \<open>float[3]\<close>: north, east, down.\<close>

type_synonym vec3 = "real \<times> real \<times> real"

text \<open>\<open>struct path_status\<close>, with the fields the solvers write.\<close>

record path_status =
  fractional_progress :: real
  error :: real
  correction_direction :: vec3
  path_direction :: vec3

text \<open>
  The path-mode codes are the enumeration constants of \<open>pathdesired.h\<close>. Their numeric
  values are not fixed here: the dispatcher takes them as a parameter. Case labels of one
  \<open>switch\<close> are pairwise different, which \<open>modes_distinct\<close> says.
\<close>

record pathdesired_modes =
  PATHDESIRED_MODE_FLYVECTOR :: "8 word"
  PATHDESIRED_MODE_DRIVEVECTOR :: "8 word"
  PATHDESIRED_MODE_FLYCIRCLERIGHT :: "8 word"
  PATHDESIRED_MODE_DRIVECIRCLERIGHT :: "8 word"
  PATHDESIRED_MODE_FLYCIRCLELEFT :: "8 word"
  PATHDESIRED_MODE_DRIVECIRCLELEFT :: "8 word"
  PATHDESIRED_MODE_FLYENDPOINT :: "8 word"
  PATHDESIRED_MODE_DRIVEENDPOINT :: "8 word"

definition mode_codes :: "pathdesired_modes \<Rightarrow> 8 word list" where
  "mode_codes M =
     [PATHDESIRED_MODE_FLYVECTOR M, PATHDESIRED_MODE_DRIVEVECTOR M,
      PATHDESIRED_MODE_FLYCIRCLERIGHT M, PATHDESIRED_MODE_DRIVECIRCLERIGHT M,
      PATHDESIRED_MODE_FLYCIRCLELEFT M, PATHDESIRED_MODE_DRIVECIRCLELEFT M,
      PATHDESIRED_MODE_FLYENDPOINT M, PATHDESIRED_MODE_DRIVEENDPOINT M]"

definition modes_distinct :: "pathdesired_modes \<Rightarrow> bool" where
  "modes_distinct M = distinct (mode_codes M)"

subsection \<open>Arithmetic the solvers call\<close>

text \<open>The threshold \<open>1e-6f\<close>.\<close>

definition small :: real where
  "small = 1 / 1000000"

text \<open>The C library's \<open>sqrtf\<close>, \<open>fabs\<close> and \<open>powf\<close> (called with the exponent 2 only).\<close>

abbreviation sqrtf :: "real \<Rightarrow> real" where
  "sqrtf \<equiv> sqrt"

abbreviation fabs :: "real \<Rightarrow> real" where
  "fabs \<equiv> abs"

definition powf :: "real \<Rightarrow> nat \<Rightarrow> real" where
  "powf x n = x ^ n"

text \<open>The macro \<open>M_PI_F\<close> of \<open>pios_math.h\<close>.\<close>

abbreviation M_PI_F :: real where
  "M_PI_F \<equiv> pi"

text \<open>
  The C library's \<open>atan2f y x\<close>: the angle of the point \<open>(x, y)\<close>, in \<open>(-pi, pi]\<close>, and 0
  at the origin.
\<close>

definition atan2f :: "real \<Rightarrow> real \<Rightarrow> real" where
  "atan2f y x =
     (if x > 0 then arctan (y / x)
      else if x < 0 then (if y \<ge> 0 then arctan (y / x) + pi else arctan (y / x) - pi)
      else if y > 0 then pi / 2
      else if y < 0 then - (pi / 2)
      else 0)"

text \<open>
  Modelled from the spec: \<open>boundf\<close> is declared in \<open>mathmisc.h\<close>, which is not among the
  sources. The spec says of its one call: "Clamp raw progress to [0, 1]".
\<close>

definition boundf :: "real \<Rightarrow> real \<Rightarrow> real \<Rightarrow> real" where
  "boundf val lo hi = (if val < lo then lo else if val > hi then hi else val)"

subsection \<open>The solvers\<close>

text \<open>
  Each solver writes into the caller's status record: it takes the record and returns it
  updated.
\<close>

definition path_endpoint :: "vec3 \<Rightarrow> vec3 \<Rightarrow> vec3 \<Rightarrow> path_status \<Rightarrow> bool \<Rightarrow> path_status" where
  "path_endpoint start_point end_point cur_point status mode3D =
     (case (start_point, end_point, cur_point) of
        ((start0, start1, start2), (end0, end1, end2), (cur0, cur1, cur2)) \<Rightarrow>
      let status = status\<lparr>correction_direction := (0, 0, 0)\<rparr>;
          path0 = end0 - start0;
          path1 = end1 - start1;
          path2 = (if mode3D then end2 - start2 else 0);
          diff0 = end0 - cur0;
          diff1 = end1 - cur1;
          diff2 = (if mode3D then end2 - cur2 else 0);
          dist_diff = sqrtf (diff0 * diff0 + diff1 * diff1 + diff2 * diff2);
          dist_path = sqrtf (path0 * path0 + path1 * path1 + path2 * path2)
      in if dist_diff < small then
           status\<lparr>fractional_progress := 1, error := 0, path_direction := (0, 0, 1)\<rparr>
         else
           (let status =
                  (if dist_path + 1 > dist_diff
                   then status\<lparr>fractional_progress := 1 - dist_diff / (1 + dist_path)\<rparr>
                   else status\<lparr>fractional_progress := 0\<rparr>);
                status = status\<lparr>error := dist_diff\<rparr>
            in status\<lparr>path_direction :=
                 (diff0 / dist_diff, diff1 / dist_diff, diff2 / dist_diff)\<rparr>))"

definition path_vector :: "vec3 \<Rightarrow> vec3 \<Rightarrow> vec3 \<Rightarrow> path_status \<Rightarrow> bool \<Rightarrow> path_status" where
  "path_vector start_point end_point cur_point status mode3D =
     (case (start_point, end_point, cur_point) of
        ((start0, start1, start2), (end0, end1, end2), (cur0, cur1, cur2)) \<Rightarrow>
      let path0 = end0 - start0;
          path1 = end1 - start1;
          path2 = (if mode3D then end2 - start2 else 0);
          diff0 = cur0 - start0;
          diff1 = cur1 - start1;
          diff2 = (if mode3D then cur2 - start2 else 0);
          dot = path0 * diff0 + path1 * diff1 + path2 * diff2;
          dist_path = sqrtf (path0 * path0 + path1 * path1 + path2 * path2);
          status =
            (if dist_path > small
             then status\<lparr>path_direction :=
                           (path0 / dist_path, path1 / dist_path, path2 / dist_path),
                         fractional_progress := dot / (dist_path * dist_path)\<rparr>
             else status\<lparr>path_direction := (0, 0, 0), fractional_progress := 1\<rparr>);
          status = status\<lparr>fractional_progress := boundf (fractional_progress status) 0 1\<rparr>;
          track_point0 = fractional_progress status * path0 + start0;
          track_point1 = fractional_progress status * path1 + start1;
          track_point2 = fractional_progress status * path2 + start2;
          corr0 = track_point0 - cur0;
          corr1 = track_point1 - cur1;
          corr2 = track_point2 - cur2;
          status = status\<lparr>correction_direction := (corr0, corr1, corr2)\<rparr>;
          status = status\<lparr>error := sqrt (corr0 * corr0 + corr1 * corr1 + corr2 * corr2)\<rparr>
      in if error status > small
         then status\<lparr>correction_direction :=
                (corr0 / error status, corr1 / error status, corr2 / error status)\<rparr>
         else status\<lparr>correction_direction := (0, 0, 1)\<rparr>)"

definition path_circle :: "vec3 \<Rightarrow> vec3 \<Rightarrow> vec3 \<Rightarrow> path_status \<Rightarrow> bool \<Rightarrow> path_status" where
  "path_circle start_point end_point cur_point status clockwise =
     (case (start_point, end_point, cur_point) of
        ((start0, start1, start2), (end0, end1, end2), (cur0, cur1, cur2)) \<Rightarrow>
      let radius_north = end0 - start0;
          radius_east = end1 - start1;
          diff_north = cur0 - end0;
          diff_east = cur1 - end1;
          radius = sqrtf (powf radius_north 2 + powf radius_east 2);
          cradius = sqrtf (powf diff_north 2 + powf diff_east 2)
      in if cradius < small then
           status\<lparr>fractional_progress := 1, error := radius,
                  correction_direction := (0, 1, 0), path_direction := (1, 0, 0)\<rparr>
         else
           (let normal0 = (if clockwise then - diff_east / cradius else diff_east / cradius);
                normal1 = (if clockwise then diff_north / cradius else - diff_north / cradius);
                a_diff = atan2f diff_north diff_east;
                a_radius = atan2f radius_north radius_east;
                a_diff = (if a_diff < 0 then a_diff + 2 * M_PI_F else a_diff);
                a_radius = (if a_radius < 0 then a_radius + 2 * M_PI_F else a_radius);
                progress = (a_diff - a_radius + M_PI_F) / (2 * M_PI_F);
                progress = (if progress < 0 then progress + 1
                            else if progress \<ge> 1 then progress - 1 else progress);
                progress = (if clockwise then 1 - progress else progress);
                status = status\<lparr>fractional_progress := progress\<rparr>;
                status = status\<lparr>error := radius - cradius\<rparr>;
                sgn_err = (if error status > 0 then 1 else - 1);
                status = status\<lparr>correction_direction :=
                           (sgn_err * diff_north / cradius, sgn_err * diff_east / cradius, 0)\<rparr>;
                status = status\<lparr>path_direction := (normal0, normal1, 0)\<rparr>
            in status\<lparr>error := fabs (error status)\<rparr>))"

subsection \<open>The dispatcher\<close>

text \<open>
  The \<open>switch\<close> of \<open>path_progress\<close>: each case returns the call of one solver; the
  \<open>default\<close> label shares the body of the drive-endpoint case.
\<close>

definition path_progress ::
  "pathdesired_modes \<Rightarrow> vec3 \<Rightarrow> vec3 \<Rightarrow> vec3 \<Rightarrow> path_status \<Rightarrow> 8 word \<Rightarrow> path_status" where
  "path_progress M start_point end_point cur_point status mode =
     (if mode = PATHDESIRED_MODE_FLYVECTOR M then
        path_vector start_point end_point cur_point status True
      else if mode = PATHDESIRED_MODE_DRIVEVECTOR M then
        path_vector start_point end_point cur_point status False
      else if mode = PATHDESIRED_MODE_FLYCIRCLERIGHT M
            \<or> mode = PATHDESIRED_MODE_DRIVECIRCLERIGHT M then
        path_circle start_point end_point cur_point status True
      else if mode = PATHDESIRED_MODE_FLYCIRCLELEFT M
            \<or> mode = PATHDESIRED_MODE_DRIVECIRCLELEFT M then
        path_circle start_point end_point cur_point status False
      else if mode = PATHDESIRED_MODE_FLYENDPOINT M then
        path_endpoint start_point end_point cur_point status True
      else
        path_endpoint start_point end_point cur_point status False)"

subsection \<open>Vector notation of the specification\<close>

definition vsub :: "vec3 \<Rightarrow> vec3 \<Rightarrow> vec3" where
  "vsub a b = (fst a - fst b, fst (snd a) - fst (snd b), snd (snd a) - snd (snd b))"



definition vdot :: "vec3 \<Rightarrow> vec3 \<Rightarrow> real" where
  "vdot a b = fst a * fst b + fst (snd a) * fst (snd b) + snd (snd a) * snd (snd b)"

definition vnorm :: "vec3 \<Rightarrow> real" where
  "vnorm a = sqrt (vdot a a)"

text \<open>The horizontal projection: the vertical (down) component set to zero.\<close>

definition horiz :: "vec3 \<Rightarrow> vec3" where
  "horiz a = (fst a, fst (snd a), 0)"


subsection \<open>Notation of the specification for the circle solver\<close>

text \<open>
  The bearing of a horizontal vector, normalised into \<open>[0, 2 pi)\<close>: the angle \<open>atan2f\<close>
  gives for its north and east components, plus \<open>2 pi\<close> when that angle is negative.
\<close>

definition bearing :: "vec3 \<Rightarrow> real" where
  "bearing v = (let a = atan2f (fst v) (fst (snd v)) in if a < 0 then a + 2 * pi else a)"

text \<open>The wrap of a progress value into \<open>[0, 1)\<close>: its fractional part.\<close>

definition wrap_unit :: "real \<Rightarrow> real" where
  "wrap_unit p = p - of_int \<lfloor>p\<rfloor>"

subsection \<open>The dispatcher's mapping, as the specification gives it\<close>

text \<open>
  The specification describes the dispatcher as a fixed mapping from the mode to one of
  the three solvers, with its 3D flag or its winding, and unknown codes mapped to the
  horizontal endpoint solver.
\<close>

datatype solver = Endpoint bool | Vector bool | Circle bool

fun run_solver :: "solver \<Rightarrow> vec3 \<Rightarrow> vec3 \<Rightarrow> vec3 \<Rightarrow> path_status \<Rightarrow> path_status" where
  "run_solver (Endpoint mode3D) s e c st = path_endpoint s e c st mode3D"
| "run_solver (Vector mode3D) s e c st = path_vector s e c st mode3D"
| "run_solver (Circle clockwise) s e c st = path_circle s e c st clockwise"

definition select_solver :: "pathdesired_modes \<Rightarrow> 8 word \<Rightarrow> solver" where
  "select_solver M mode =
     (if mode = PATHDESIRED_MODE_FLYVECTOR M then Vector True
      else if mode = PATHDESIRED_MODE_DRIVEVECTOR M then Vector False
      else if mode = PATHDESIRED_MODE_FLYCIRCLERIGHT M then Circle True
      else if mode = PATHDESIRED_MODE_DRIVECIRCLERIGHT M then Circle True
      else if mode = PATHDESIRED_MODE_FLYCIRCLELEFT M then Circle False
      else if mode = PATHDESIRED_MODE_DRIVECIRCLELEFT M then Circle False
      else if mode = PATHDESIRED_MODE_FLYENDPOINT M then Endpoint True
      else Endpoint False)"

subsection \<open>Values for the examples\<close>

text \<open>A status record with every field zero, as a caller may pass it in.\<close>

definition status0 :: path_status where
  "status0 = \<lparr>fractional_progress = 0, error = 0, correction_direction = (0, 0, 0),
              path_direction = (0, 0, 0)\<rparr>"

text \<open>
  A numbering of the mode codes for the examples. No property below depends on it beyond
  the codes being pairwise different.
\<close>

definition modes0 :: pathdesired_modes where
  "modes0 = \<lparr>PATHDESIRED_MODE_FLYVECTOR = 1, PATHDESIRED_MODE_DRIVEVECTOR = 5,
             PATHDESIRED_MODE_FLYCIRCLERIGHT = 2, PATHDESIRED_MODE_DRIVECIRCLERIGHT = 7,
             PATHDESIRED_MODE_FLYCIRCLELEFT = 3, PATHDESIRED_MODE_DRIVECIRCLELEFT = 6,
             PATHDESIRED_MODE_FLYENDPOINT = 0, PATHDESIRED_MODE_DRIVEENDPOINT = 4\<rparr>"

subsection \<open>Floats with overflow and NaN\<close>

text \<open>
  The model above cannot overflow. For the properties that are stated of every input, the
  solvers are modelled a second time over floats that keep the special values: a float
  is a finite number, an infinity or NaN. An arithmetic result beyond \<open>FLT_MAX\<close> in
  magnitude is an infinity; a finite result within range is kept exact, so rounding is
  not modelled, and neither are denormals and the sign of zero.
\<close>

datatype float = Fin real | PInf | NInf | NaN

text \<open>The largest finite \<open>float\<close>, \<open>(2\<^sup>2\<^sup>4 - 1) * 2\<^sup>1\<^sup>0\<^sup>4\<close>.\<close>

definition FLT_MAX :: real where
  "FLT_MAX = 340282346638528859811704183484516925440"

definition to_float :: "real \<Rightarrow> float" where
  "to_float r = (if r > FLT_MAX then PInf else if r < - FLT_MAX then NInf else Fin r)"

text \<open>
  Arithmetic and comparisons with the IEEE rules for infinities and NaN: a comparison with
  NaN is false, infinity minus infinity, zero times infinity, zero by zero and infinity by
  infinity are NaN. A non-zero number divided by zero is the infinity of the numerator's
  sign.
\<close>

fun is_fin :: "float \<Rightarrow> bool" where
  "is_fin (Fin a) = True"
| "is_fin PInf = False"
| "is_fin NInf = False"
| "is_fin NaN = False"

fun fsign :: "float \<Rightarrow> real" where
  "fsign (Fin a) = sgn a"
| "fsign PInf = 1"
| "fsign NInf = - 1"
| "fsign NaN = 0"

definition signed_inf :: "real \<Rightarrow> float" where
  "signed_inf s = (if s > 0 then PInf else if s < 0 then NInf else NaN)"

fun fneg :: "float \<Rightarrow> float" where
  "fneg (Fin a) = Fin (- a)"
| "fneg PInf = NInf"
| "fneg NInf = PInf"
| "fneg NaN = NaN"

fun fadd :: "float \<Rightarrow> float \<Rightarrow> float" where
  "fadd NaN b = NaN"
| "fadd a NaN = NaN"
| "fadd (Fin a) (Fin b) = to_float (a + b)"
| "fadd (Fin a) PInf = PInf"
| "fadd (Fin a) NInf = NInf"
| "fadd PInf (Fin b) = PInf"
| "fadd NInf (Fin b) = NInf"
| "fadd PInf PInf = PInf"
| "fadd NInf NInf = NInf"
| "fadd PInf NInf = NaN"
| "fadd NInf PInf = NaN"

definition fsub :: "float \<Rightarrow> float \<Rightarrow> float" where
  "fsub a b = fadd a (fneg b)"

fun fmul :: "float \<Rightarrow> float \<Rightarrow> float" where
  "fmul NaN b = NaN"
| "fmul a NaN = NaN"
| "fmul (Fin a) (Fin b) = to_float (a * b)"
| "fmul a b = signed_inf (fsign a * fsign b)"

fun fdiv :: "float \<Rightarrow> float \<Rightarrow> float" where
  "fdiv NaN b = NaN"
| "fdiv a NaN = NaN"
| "fdiv (Fin a) (Fin b) = (if b = 0 then signed_inf (sgn a) else to_float (a / b))"
| "fdiv (Fin a) b = Fin 0"
| "fdiv a (Fin b) = signed_inf (fsign a * (if b < 0 then - 1 else 1))"
| "fdiv a b = NaN"

fun fsqrtf :: "float \<Rightarrow> float" where
  "fsqrtf (Fin a) = (if a < 0 then NaN else Fin (sqrt a))"
| "fsqrtf PInf = PInf"
| "fsqrtf NInf = NaN"
| "fsqrtf NaN = NaN"

fun ffabs :: "float \<Rightarrow> float" where
  "ffabs (Fin a) = Fin \<bar>a\<bar>"
| "ffabs PInf = PInf"
| "ffabs NInf = PInf"
| "ffabs NaN = NaN"

fun fless :: "float \<Rightarrow> float \<Rightarrow> bool" where
  "fless NaN b = False"
| "fless a NaN = False"
| "fless (Fin a) (Fin b) = (a < b)"
| "fless (Fin a) PInf = True"
| "fless (Fin a) NInf = False"
| "fless PInf b = False"
| "fless NInf NInf = False"
| "fless NInf b = True"

definition fgreater :: "float \<Rightarrow> float \<Rightarrow> bool" where
  "fgreater a b = fless b a"

fun fgeq :: "float \<Rightarrow> float \<Rightarrow> bool" where
  "fgeq NaN b = False"
| "fgeq a NaN = False"
| "fgeq a b = (\<not> fless a b)"

text \<open>\<open>powf\<close> with the exponent 2, its only use in the solvers.\<close>

definition fpowf_2 :: "float \<Rightarrow> float" where
  "fpowf_2 x = fmul x x"

text \<open>\<open>atan2f\<close>, with the values the C library gives at the infinities.\<close>

fun fatan2f :: "float \<Rightarrow> float \<Rightarrow> float" where
  "fatan2f NaN x = NaN"
| "fatan2f y NaN = NaN"
| "fatan2f (Fin y) (Fin x) = Fin (atan2f y x)"
| "fatan2f (Fin y) PInf = Fin 0"
| "fatan2f (Fin y) NInf = (if y < 0 then Fin (- pi) else Fin pi)"
| "fatan2f PInf (Fin x) = Fin (pi / 2)"
| "fatan2f NInf (Fin x) = Fin (- (pi / 2))"
| "fatan2f PInf PInf = Fin (pi / 4)"
| "fatan2f PInf NInf = Fin (3 * pi / 4)"
| "fatan2f NInf PInf = Fin (- (pi / 4))"
| "fatan2f NInf NInf = Fin (- (3 * pi / 4))"

text \<open>
  Modelled from the spec: \<open>boundf\<close> of \<open>mathmisc.h\<close>, not among the sources, as the clamp
  the spec describes; written with comparisons, it lets a NaN through.
\<close>

definition fboundf :: "float \<Rightarrow> float \<Rightarrow> float \<Rightarrow> float" where
  "fboundf val lo hi = (if fless val lo then lo else if fgreater val hi then hi else val)"

text \<open>
  Points, the status record, the three solvers and the dispatcher once more, statement by
  statement as above, over these floats.
\<close>

type_synonym fvec3 = "float \<times> float \<times> float"

record path_status_f =
  fractional_progress_f :: float
  error_f :: float
  correction_direction_f :: fvec3
  path_direction_f :: fvec3

definition path_endpoint_f ::
  "fvec3 \<Rightarrow> fvec3 \<Rightarrow> fvec3 \<Rightarrow> path_status_f \<Rightarrow> bool \<Rightarrow> path_status_f" where
  "path_endpoint_f start_point end_point cur_point status mode3D =
     (case (start_point, end_point, cur_point) of
        ((start0, start1, start2), (end0, end1, end2), (cur0, cur1, cur2)) \<Rightarrow>
      let status = status\<lparr>correction_direction_f := (Fin 0, Fin 0, Fin 0)\<rparr>;
          path0 = fsub end0 start0;
          path1 = fsub end1 start1;
          path2 = (if mode3D then fsub end2 start2 else Fin 0);
          diff0 = fsub end0 cur0;
          diff1 = fsub end1 cur1;
          diff2 = (if mode3D then fsub end2 cur2 else Fin 0);
          dist_diff = fsqrtf (fadd (fadd (fmul diff0 diff0) (fmul diff1 diff1)) (fmul diff2 diff2));
          dist_path = fsqrtf (fadd (fadd (fmul path0 path0) (fmul path1 path1)) (fmul path2 path2))
      in if fless dist_diff (Fin small) then
           status\<lparr>fractional_progress_f := Fin 1, error_f := Fin 0,
                  path_direction_f := (Fin 0, Fin 0, Fin 1)\<rparr>
         else
           (let status =
                  (if fgreater (fadd dist_path (Fin 1)) dist_diff
                   then status\<lparr>fractional_progress_f :=
                          fsub (Fin 1) (fdiv dist_diff (fadd (Fin 1) dist_path))\<rparr>
                   else status\<lparr>fractional_progress_f := Fin 0\<rparr>);
                status = status\<lparr>error_f := dist_diff\<rparr>
            in status\<lparr>path_direction_f :=
                 (fdiv diff0 dist_diff, fdiv diff1 dist_diff, fdiv diff2 dist_diff)\<rparr>))"

definition path_vector_f ::
  "fvec3 \<Rightarrow> fvec3 \<Rightarrow> fvec3 \<Rightarrow> path_status_f \<Rightarrow> bool \<Rightarrow> path_status_f" where
  "path_vector_f start_point end_point cur_point status mode3D =
     (case (start_point, end_point, cur_point) of
        ((start0, start1, start2), (end0, end1, end2), (cur0, cur1, cur2)) \<Rightarrow>
      let path0 = fsub end0 start0;
          path1 = fsub end1 start1;
          path2 = (if mode3D then fsub end2 start2 else Fin 0);
          diff0 = fsub cur0 start0;
          diff1 = fsub cur1 start1;
          diff2 = (if mode3D then fsub cur2 start2 else Fin 0);
          dot = fadd (fadd (fmul path0 diff0) (fmul path1 diff1)) (fmul path2 diff2);
          dist_path = fsqrtf (fadd (fadd (fmul path0 path0) (fmul path1 path1)) (fmul path2 path2));
          status =
            (if fgreater dist_path (Fin small)
             then status\<lparr>path_direction_f :=
                           (fdiv path0 dist_path, fdiv path1 dist_path, fdiv path2 dist_path),
                         fractional_progress_f := fdiv dot (fmul dist_path dist_path)\<rparr>
             else status\<lparr>path_direction_f := (Fin 0, Fin 0, Fin 0),
                         fractional_progress_f := Fin 1\<rparr>);
          status = status\<lparr>fractional_progress_f :=
                     fboundf (fractional_progress_f status) (Fin 0) (Fin 1)\<rparr>;
          track_point0 = fadd (fmul (fractional_progress_f status) path0) start0;
          track_point1 = fadd (fmul (fractional_progress_f status) path1) start1;
          track_point2 = fadd (fmul (fractional_progress_f status) path2) start2;
          corr0 = fsub track_point0 cur0;
          corr1 = fsub track_point1 cur1;
          corr2 = fsub track_point2 cur2;
          status = status\<lparr>correction_direction_f := (corr0, corr1, corr2)\<rparr>;
          status = status\<lparr>error_f :=
                     fsqrtf (fadd (fadd (fmul corr0 corr0) (fmul corr1 corr1)) (fmul corr2 corr2))\<rparr>
      in if fgreater (error_f status) (Fin small)
         then status\<lparr>correction_direction_f :=
                (fdiv corr0 (error_f status), fdiv corr1 (error_f status),
                 fdiv corr2 (error_f status))\<rparr>
         else status\<lparr>correction_direction_f := (Fin 0, Fin 0, Fin 1)\<rparr>)"

definition path_circle_f ::
  "fvec3 \<Rightarrow> fvec3 \<Rightarrow> fvec3 \<Rightarrow> path_status_f \<Rightarrow> bool \<Rightarrow> path_status_f" where
  "path_circle_f start_point end_point cur_point status clockwise =
     (case (start_point, end_point, cur_point) of
        ((start0, start1, start2), (end0, end1, end2), (cur0, cur1, cur2)) \<Rightarrow>
      let radius_north = fsub end0 start0;
          radius_east = fsub end1 start1;
          diff_north = fsub cur0 end0;
          diff_east = fsub cur1 end1;
          radius = fsqrtf (fadd (fpowf_2 radius_north) (fpowf_2 radius_east));
          cradius = fsqrtf (fadd (fpowf_2 diff_north) (fpowf_2 diff_east))
      in if fless cradius (Fin small) then
           status\<lparr>fractional_progress_f := Fin 1, error_f := radius,
                  correction_direction_f := (Fin 0, Fin 1, Fin 0),
                  path_direction_f := (Fin 1, Fin 0, Fin 0)\<rparr>
         else
           (let normal0 = (if clockwise then fdiv (fneg diff_east) cradius
                           else fdiv diff_east cradius);
                normal1 = (if clockwise then fdiv diff_north cradius
                           else fdiv (fneg diff_north) cradius);
                a_diff = fatan2f diff_north diff_east;
                a_radius = fatan2f radius_north radius_east;
                a_diff = (if fless a_diff (Fin 0)
                          then fadd a_diff (fmul (Fin 2) (Fin M_PI_F)) else a_diff);
                a_radius = (if fless a_radius (Fin 0)
                            then fadd a_radius (fmul (Fin 2) (Fin M_PI_F)) else a_radius);
                progress = fdiv (fadd (fsub a_diff a_radius) (Fin M_PI_F))
                             (fmul (Fin 2) (Fin M_PI_F));
                progress = (if fless progress (Fin 0) then fadd progress (Fin 1)
                            else if fgeq progress (Fin 1) then fsub progress (Fin 1)
                            else progress);
                progress = (if clockwise then fsub (Fin 1) progress else progress);
                status = status\<lparr>fractional_progress_f := progress\<rparr>;
                status = status\<lparr>error_f := fsub radius cradius\<rparr>;
                sgn_err = (if fgreater (error_f status) (Fin 0) then Fin 1 else Fin (- 1));
                status = status\<lparr>correction_direction_f :=
                           (fdiv (fmul sgn_err diff_north) cradius,
                            fdiv (fmul sgn_err diff_east) cradius, Fin 0)\<rparr>;
                status = status\<lparr>path_direction_f := (normal0, normal1, Fin 0)\<rparr>
            in status\<lparr>error_f := ffabs (error_f status)\<rparr>))"

definition path_progress_f ::
  "pathdesired_modes \<Rightarrow> fvec3 \<Rightarrow> fvec3 \<Rightarrow> fvec3 \<Rightarrow> path_status_f \<Rightarrow> 8 word \<Rightarrow> path_status_f"
  where
  "path_progress_f M start_point end_point cur_point status mode =
     (if mode = PATHDESIRED_MODE_FLYVECTOR M then
        path_vector_f start_point end_point cur_point status True
      else if mode = PATHDESIRED_MODE_DRIVEVECTOR M then
        path_vector_f start_point end_point cur_point status False
      else if mode = PATHDESIRED_MODE_FLYCIRCLERIGHT M
            \<or> mode = PATHDESIRED_MODE_DRIVECIRCLERIGHT M then
        path_circle_f start_point end_point cur_point status True
      else if mode = PATHDESIRED_MODE_FLYCIRCLELEFT M
            \<or> mode = PATHDESIRED_MODE_DRIVECIRCLELEFT M then
        path_circle_f start_point end_point cur_point status False
      else if mode = PATHDESIRED_MODE_FLYENDPOINT M then
        path_endpoint_f start_point end_point cur_point status True
      else
        path_endpoint_f start_point end_point cur_point status False)"

text \<open>
  Vector notation over these floats. \<open>hnorm_f\<close> is the horizontal length as the circle
  solver computes it.
\<close>

definition vsub_f :: "fvec3 \<Rightarrow> fvec3 \<Rightarrow> fvec3" where
  "vsub_f a b = (fsub (fst a) (fst b), fsub (fst (snd a)) (fst (snd b)),
                 fsub (snd (snd a)) (snd (snd b)))"

definition flat_f :: "bool \<Rightarrow> fvec3 \<Rightarrow> fvec3" where
  "flat_f mode3D a = (if mode3D then a else (fst a, fst (snd a), Fin 0))"

definition vnorm_f :: "fvec3 \<Rightarrow> float" where
  "vnorm_f a =
     fsqrtf (fadd (fadd (fmul (fst a) (fst a)) (fmul (fst (snd a)) (fst (snd a))))
                  (fmul (snd (snd a)) (snd (snd a))))"

definition hnorm_f :: "fvec3 \<Rightarrow> float" where
  "hnorm_f a = fsqrtf (fadd (fmul (fst a) (fst a)) (fmul (fst (snd a)) (fst (snd a))))"

text \<open>A status record with every field zero.\<close>

definition status0_f :: path_status_f where
  "status0_f = \<lparr>fractional_progress_f = Fin 0, error_f = Fin 0,
                correction_direction_f = (Fin 0, Fin 0, Fin 0),
                path_direction_f = (Fin 0, Fin 0, Fin 0)\<rparr>"

text \<open>The solver a mode selects, run over these floats.\<close>

fun run_solver_f ::
  "solver \<Rightarrow> fvec3 \<Rightarrow> fvec3 \<Rightarrow> fvec3 \<Rightarrow> path_status_f \<Rightarrow> path_status_f" where
  "run_solver_f (Endpoint mode3D) s e c st = path_endpoint_f s e c st mode3D"
| "run_solver_f (Vector mode3D) s e c st = path_vector_f s e c st mode3D"
| "run_solver_f (Circle clockwise) s e c st = path_circle_f s e c st clockwise"

definition fzero :: fvec3 where
  "fzero = (Fin 0, Fin 0, Fin 0)"

text \<open>
  Points whose coordinates are finite and at most \<open>2\<^sup>6\<^sup>0\<close> in magnitude: no intermediate
  result of a solver overflows on them.
\<close>

definition reach :: real where
  "reach = 1152921504606846976"

fun within_reach :: "float \<Rightarrow> bool" where
  "within_reach (Fin x) = (\<bar>x\<bar> \<le> reach)"
| "within_reach PInf = False"
| "within_reach NInf = False"
| "within_reach NaN = False"

definition point_within_reach :: "fvec3 \<Rightarrow> bool" where
  "point_within_reach v =
     (within_reach (fst v) \<and> within_reach (fst (snd v)) \<and> within_reach (snd (snd v)))"

section \<open>Properties\<close>

subsection \<open>Auxiliary facts\<close>

lemma small_pos: "0 < small" by (simp add: small_def)

lemma path_endpoint_simp:
  "path_endpoint (s0, s1, s2) (e0, e1, e2) (c0, c1, c2) st m =
     (let d2 = (if m then e2 - c2 else 0);
          p2 = (if m then e2 - s2 else 0);
          dd = sqrt ((e0 - c0) * (e0 - c0) + (e1 - c1) * (e1 - c1) + d2 * d2);
          dp = sqrt ((e0 - s0) * (e0 - s0) + (e1 - s1) * (e1 - s1) + p2 * p2)
      in if dd < small
         then st\<lparr>fractional_progress := 1, error := 0, correction_direction := (0, 0, 0),
                 path_direction := (0, 0, 1)\<rparr>
         else st\<lparr>fractional_progress := (if dp + 1 > dd then 1 - dd / (1 + dp) else 0),
                 error := dd, correction_direction := (0, 0, 0),
                 path_direction := ((e0 - c0) / dd, (e1 - c1) / dd, d2 / dd)\<rparr>)"
  by (simp add: path_endpoint_def Let_def)

lemma vnorm_simp: "vnorm (a, b, c) = sqrt (a * a + b * b + c * c)"
  by (simp add: vnorm_def vdot_def)

lemma unit3:
  assumes "d = sqrt (a * a + b * b + c * c)" and "0 < d"
  shows "sqrt ((a / d) * (a / d) + (b / d) * (b / d) + (c / d) * (c / d)) = 1"
proof -
  define S where "S = a * a + b * b + c * c"
  have nn: "0 \<le> S" by (simp add: S_def)
  have dd: "d * d = S" using assms(1) nn by (simp add: S_def)
  have Spos: "0 < S" using dd assms(2) by (metis mult_pos_pos)
  have "(a / d) * (a / d) + (b / d) * (b / d) + (c / d) * (c / d) = S / (d * d)"
    by (simp add: S_def add_divide_distrib)
  also have "\<dots> = 1" using dd Spos by simp
  finally show ?thesis by simp
qed

lemma sqrt_25: "sqrt 25 = 5"
  using real_sqrt_abs2 [of 5] by simp

lemma sqrt_100: "sqrt 100 = 10"
  using real_sqrt_abs2 [of 10] by simp


subsection \<open>The endpoint solver\<close>



subsection \<open>The circle solver\<close>

lemma atan2f_range: "- pi < atan2f y x \<and> atan2f y x \<le> pi"
proof -
  have lb: "- (pi / 2) < arctan (y / x)" by (rule arctan_lbound)
  have ub: "arctan (y / x) < pi / 2" by (rule arctan_ubound)
  have p: "0 < pi" by simp
  consider (pos) "0 < x" | (negp) "x < 0" "0 \<le> y" | (negn) "x < 0" "y < 0" | (zero) "x = 0"
    by linarith
  then show ?thesis
  proof cases
    case pos
    then have "atan2f y x = arctan (y / x)" by (simp add: atan2f_def)
    then show ?thesis using lb ub p by linarith
  next
    case negp
    then have "y / x \<le> 0" by (simp add: divide_nonneg_neg)
    then have "arctan (y / x) \<le> 0" by (simp add: arctan_le_zero_iff)
    moreover have "atan2f y x = arctan (y / x) + pi" using negp by (simp add: atan2f_def)
    ultimately show ?thesis using lb p by linarith
  next
    case negn
    then have "0 < y / x" by (simp add: divide_neg_neg)
    then have "0 < arctan (y / x)" by (simp add: zero_less_arctan_iff)
    moreover have "atan2f y x = arctan (y / x) - pi" using negn by (simp add: atan2f_def)
    ultimately show ?thesis using ub p by linarith
  next
    case zero
    then have "atan2f y x = pi / 2 \<or> atan2f y x = - (pi / 2) \<or> atan2f y x = 0"
      by (simp add: atan2f_def)
    then show ?thesis using p by linarith
  qed
qed

lemma bearing_range: "0 \<le> bearing v \<and> bearing v < 2 * pi"
proof -
  have r: "- pi < atan2f (fst v) (fst (snd v)) \<and> atan2f (fst v) (fst (snd v)) \<le> pi"
    by (rule atan2f_range)
  have p: "0 < pi" by simp
  have "bearing v = atan2f (fst v) (fst (snd v)) + 2 * pi \<and> atan2f (fst v) (fst (snd v)) < 0
        \<or> bearing v = atan2f (fst v) (fst (snd v)) \<and> 0 \<le> atan2f (fst v) (fst (snd v))"
    by (simp add: bearing_def Let_def)
  then show ?thesis using r p by linarith
qed

lemma wrap_unit_cases:
  assumes "- 1 < p" and "p < 2"
  shows "wrap_unit p = (if p < 0 then p + 1 else if p \<ge> 1 then p - 1 else p)"
proof -
  consider (a) "p < 0" | (b) "1 \<le> p" | (c) "0 \<le> p" "p < 1" by linarith
  then show ?thesis
  proof cases
    case a
    then have "\<lfloor>p\<rfloor> = - 1" using assms by (simp add: floor_eq_iff)
    then show ?thesis using a by (simp add: wrap_unit_def)
  next
    case b
    then have "\<lfloor>p\<rfloor> = 1" using assms by (simp add: floor_eq_iff)
    then show ?thesis using b by (simp add: wrap_unit_def)
  next
    case c
    then have "\<lfloor>p\<rfloor> = 0" by (simp add: floor_eq_iff)
    then show ?thesis using c by (simp add: wrap_unit_def)
  qed
qed

lemma wrap_unit_range: "0 \<le> wrap_unit p \<and> wrap_unit p < 1"
  unfolding wrap_unit_def by linarith

lemma raw_progress_range:
  assumes "0 \<le> a" "a < 2 * pi" "0 \<le> b" "b < 2 * pi"
  shows "- 1 < (a - b + pi) / (2 * pi) \<and> (a - b + pi) / (2 * pi) < 2"
proof -
  have p: "0 < 2 * pi" by simp
  have "- 1 * (2 * pi) < a - b + pi" using assms p by linarith
  then have l: "- 1 < (a - b + pi) / (2 * pi)" using p by (simp only: less_divide_eq if_P)
  have "a - b + pi < 2 * (2 * pi)" using assms p by linarith
  then have u: "(a - b + pi) / (2 * pi) < 2" using p by (simp only: divide_less_eq if_P)
  show ?thesis using l u by simp
qed

lemma path_circle_degenerate:
  assumes "sqrt ((c0 - e0) * (c0 - e0) + (c1 - e1) * (c1 - e1)) < small"
  shows "path_circle (s0, s1, s2) (e0, e1, e2) (c0, c1, c2) st cw =
           st\<lparr>fractional_progress := 1,
              error := sqrt ((e0 - s0) * (e0 - s0) + (e1 - s1) * (e1 - s1)),
              correction_direction := (0, 1, 0), path_direction := (1, 0, 0)\<rparr>"
  using assms by (simp add: path_circle_def powf_def power2_eq_square Let_def)

lemma path_circle_regular:
  assumes "\<not> sqrt ((c0 - e0) * (c0 - e0) + (c1 - e1) * (c1 - e1)) < small"
  shows "path_circle (s0, s1, s2) (e0, e1, e2) (c0, c1, c2) st cw =
     (let radius = sqrt ((e0 - s0) * (e0 - s0) + (e1 - s1) * (e1 - s1));
          cradius = sqrt ((c0 - e0) * (c0 - e0) + (c1 - e1) * (c1 - e1));
          p = (bearing (c0 - e0, c1 - e1, 0) - bearing (e0 - s0, e1 - s1, 0) + pi) / (2 * pi);
          w = (if p < 0 then p + 1 else if p \<ge> 1 then p - 1 else p);
          k = (if radius - cradius > 0 then 1 else - 1)
      in st\<lparr>fractional_progress := (if cw then 1 - w else w),
            error := \<bar>radius - cradius\<bar>,
            correction_direction := (k * (c0 - e0) / cradius, k * (c1 - e1) / cradius, 0),
            path_direction :=
              (if cw then (- (c1 - e1) / cradius, (c0 - e0) / cradius, 0)
               else ((c1 - e1) / cradius, - (c0 - e0) / cradius, 0))\<rparr>)"
  using assms by (simp add: path_circle_def powf_def power2_eq_square Let_def bearing_def)


lemma vnorm_flat: "vnorm (a, b, 0) = sqrt (a * a + b * b)"
  by (simp add: vnorm_def vdot_def)

lemma horiz_vsub: "horiz (vsub (a0, a1, a2) (b0, b1, b2)) = (a0 - b0, a1 - b1, 0)"
  by (simp add: horiz_def vsub_def)






lemma path_circle_fp:
  assumes n: "\<not> sqrt ((c0 - e0) * (c0 - e0) + (c1 - e1) * (c1 - e1)) < small"
  shows "fractional_progress (path_circle (s0, s1, s2) (e0, e1, e2) (c0, c1, c2) st cw) =
     (let w = wrap_unit ((bearing (c0 - e0, c1 - e1, 0) - bearing (e0 - s0, e1 - s1, 0) + pi)
                          / (2 * pi))
      in if cw then 1 - w else w)"
proof -
  define p where
    "p = (bearing (c0 - e0, c1 - e1, 0) - bearing (e0 - s0, e1 - s1, 0) + pi) / (2 * pi)"
  have r: "- 1 < p \<and> p < 2"
    unfolding p_def using bearing_range [of "(c0 - e0, c1 - e1, 0)"]
      bearing_range [of "(e0 - s0, e1 - s1, 0)"]
    by (intro raw_progress_range) simp_all
  have w: "wrap_unit p = (if p < 0 then p + 1 else if p \<ge> 1 then p - 1 else p)"
    using r by (intro wrap_unit_cases) simp_all
  have "fractional_progress (path_circle (s0, s1, s2) (e0, e1, e2) (c0, c1, c2) st cw) =
          (if cw then 1 - wrap_unit p else wrap_unit p)"
    unfolding w by (simp add: path_circle_regular [OF n] Let_def p_def)
  then show ?thesis by (simp add: Let_def p_def)
qed


lemma bearing_north: "0 < y \<Longrightarrow> bearing (y, 0, z) = pi / 2"
  by (simp add: bearing_def atan2f_def)

lemma bearing_south: "y < 0 \<Longrightarrow> bearing (y, 0, z) = 3 * pi / 2"
  by (simp add: bearing_def atan2f_def)




lemma wrap_unit_one: "wrap_unit 1 = 0"
  by (simp add: wrap_unit_def)



text \<open>
  C10. For every call of the circle solver with \<open>cradius \<ge> 1e-6\<close>, the progress lies in
  \<open>[0, 1)\<close> for counter-clockwise winding and in \<open>(0, 1]\<close> for clockwise winding, the
  clockwise value being 1 minus the counter-clockwise one. At the start point of the
  circle the counter-clockwise progress is exactly 0 and the clockwise progress exactly 1.
\<close>

theorem path_circle_progress_range:
  "(let ccw = fractional_progress (path_circle start_point end_point cur_point status False);
        cw = fractional_progress (path_circle start_point end_point cur_point status True)
    in small \<le> vnorm (horiz (vsub cur_point end_point)) \<longrightarrow>
         0 \<le> ccw \<and> ccw < 1 \<and> 0 < cw \<and> cw \<le> 1 \<and> cw = 1 - ccw) \<and>
   fractional_progress (path_circle (0, 0, 0) (10, 0, 0) (0, 0, 0) status False) = 0 \<and>
   fractional_progress (path_circle (0, 0, 0) (10, 0, 0) (0, 0, 0) status True) = 1"
proof -
  obtain s0 s1 s2 where s: "start_point = (s0, s1, s2)" by (cases start_point) auto
  obtain e0 e1 e2 where e: "end_point = (e0, e1, e2)" by (cases end_point) auto
  obtain c0 c1 c2 where c: "cur_point = (c0, c1, c2)" by (cases cur_point) auto
  define w where
    "w = wrap_unit ((bearing (c0 - e0, c1 - e1, 0) - bearing (e0 - s0, e1 - s1, 0) + pi)
                     / (2 * pi))"
  have wr: "0 \<le> w \<and> w < 1" unfolding w_def by (rule wrap_unit_range)
  have general: "0 \<le> fractional_progress (path_circle (s0, s1, s2) (e0, e1, e2) (c0, c1, c2) status False)
       \<and> fractional_progress (path_circle (s0, s1, s2) (e0, e1, e2) (c0, c1, c2) status False) < 1
       \<and> 0 < fractional_progress (path_circle (s0, s1, s2) (e0, e1, e2) (c0, c1, c2) status True)
       \<and> fractional_progress (path_circle (s0, s1, s2) (e0, e1, e2) (c0, c1, c2) status True) \<le> 1
       \<and> fractional_progress (path_circle (s0, s1, s2) (e0, e1, e2) (c0, c1, c2) status True) =
           1 - fractional_progress (path_circle (s0, s1, s2) (e0, e1, e2) (c0, c1, c2) status False)"
    if "small \<le> sqrt ((c0 - e0) * (c0 - e0) + (c1 - e1) * (c1 - e1))"
  proof -
    have n: "\<not> sqrt ((c0 - e0) * (c0 - e0) + (c1 - e1) * (c1 - e1)) < small"
      using that by simp
    have a: "fractional_progress (path_circle (s0, s1, s2) (e0, e1, e2) (c0, c1, c2) status False) = w"
      by (simp add: path_circle_fp [OF n] w_def)
    have b: "fractional_progress (path_circle (s0, s1, s2) (e0, e1, e2) (c0, c1, c2) status True) = 1 - w"
      by (simp add: path_circle_fp [OF n] w_def)
    show ?thesis unfolding a b using wr by simp
  qed
  have n0: "\<not> sqrt ((0 - 10) * (0 - 10) + (0 - 0) * (0 - 0)) < small"
    by (simp add: small_def sqrt_100)
  have q: "(3 * pi / 2 - pi / 2 + pi) / (2 * pi) = 1" by simp
  have sc1: "fractional_progress (path_circle (0, 0, 0) (10, 0, 0) (0, 0, 0) status False) = 0"
    by (simp add: path_circle_fp [OF n0] bearing_north bearing_south wrap_unit_one)
  have sc2: "fractional_progress (path_circle (0, 0, 0) (10, 0, 0) (0, 0, 0) status True) = 1"
    by (simp add: path_circle_fp [OF n0] bearing_north bearing_south wrap_unit_one)
  show ?thesis
    unfolding s e c using general sc1 sc2
    by (simp add: horiz_vsub vnorm_flat Let_def)
qed

text \<open>A quarter turn from the start radius.\<close>

theorem path_circle_progress_range_witness:
  "small \<le> vnorm (horiz (vsub (10, 10, 0) (10, 0, 0))) \<and>
   0 < fractional_progress (path_circle (0, 0, 0) (10, 0, 0) (10, 10, 0) status0 True) \<and>
   fractional_progress (path_circle (0, 0, 0) (10, 0, 0) (10, 10, 0) status0 True) \<le> 1 \<and>
   0 \<le> fractional_progress (path_circle (0, 0, 0) (10, 0, 0) (10, 10, 0) status0 False) \<and>
   fractional_progress (path_circle (0, 0, 0) (10, 0, 0) (10, 10, 0) status0 False) < 1"
proof -
  have h: "small \<le> vnorm (horiz (vsub (10, 10, 0) (10, 0, 0)))"
    by (simp add: horiz_vsub vnorm_flat small_def sqrt_100)
  show ?thesis
    using h path_circle_progress_range [of "(0, 0, 0)" "(10, 0, 0)" "(10, 10, 0)" status0]
    by (simp add: Let_def)
qed

subsection \<open>The vector solver\<close>


lemma path_vector_simp:
  "path_vector (s0, s1, s2) (e0, e1, e2) (c0, c1, c2) st m =
     (let p2 = (if m then e2 - s2 else 0);
          d2 = (if m then c2 - s2 else 0);
          dp = sqrt ((e0 - s0) * (e0 - s0) + (e1 - s1) * (e1 - s1) + p2 * p2);
          fp = (if dp > small
                then boundf (((e0 - s0) * (c0 - s0) + (e1 - s1) * (c1 - s1) + p2 * d2) / (dp * dp)) 0 1
                else boundf 1 0 1);
          k0 = fp * (e0 - s0) + s0 - c0;
          k1 = fp * (e1 - s1) + s1 - c1;
          k2 = fp * p2 + s2 - c2;
          err = sqrt (k0 * k0 + k1 * k1 + k2 * k2)
      in st\<lparr>fractional_progress := fp,
            error := err,
            correction_direction := (if err > small then (k0 / err, k1 / err, k2 / err) else (0, 0, 1)),
            path_direction :=
              (if dp > small then ((e0 - s0) / dp, (e1 - s1) / dp, p2 / dp) else (0, 0, 0))\<rparr>)"
  by (cases m) (simp_all add: path_vector_def Let_def)


lemma clamp_one: "max 0 (min 1 (1::real)) = 1"
  by simp



subsection \<open>Directions and error of the three solvers\<close>

lemma vnorm_unit_z: "vnorm (0, 0, 1) = 1" by (simp add: vnorm_simp)
lemma vnorm_unit_y: "vnorm (0, 1, 0) = 1" by (simp add: vnorm_simp)
lemma vnorm_unit_x: "vnorm (1, 0, 0) = 1" by (simp add: vnorm_simp)

lemma vnorm_div:
  assumes "d = sqrt (a * a + b * b + c * c)" and "0 < d"
  shows "vnorm (a / d, b / d, c / d) = 1"
  using unit3 [OF assms] by (simp add: vnorm_simp)

lemma vnorm_flat_unit:
  assumes "cr = sqrt (a * a + b * b)" and "0 < cr" and "x * x = a * a" and "y * y = b * b"
  shows "vnorm (x / cr, y / cr, 0) = 1" and "vnorm (y / cr, x / cr, 0) = 1"
proof -
  have c1: "cr = sqrt (x * x + y * y + 0 * 0)" using assms by simp
  have c2: "cr = sqrt (y * y + x * x + 0 * 0)" using assms by (simp add: add.commute)
  show "vnorm (x / cr, y / cr, 0) = 1" using vnorm_div [OF c1 assms(2)] by simp
  show "vnorm (y / cr, x / cr, 0) = 1" using vnorm_div [OF c2 assms(2)] by simp
qed

lemma path_vector_shape:
  "\<exists>fp err k0 k1 k2 dp p0 p1 p2.
     path_vector start_point end_point cur_point st m =
       st\<lparr>fractional_progress := fp, error := err,
          correction_direction :=
            (if err > small then (k0 / err, k1 / err, k2 / err) else (0, 0, 1)),
          path_direction :=
            (if dp > small then (p0 / dp, p1 / dp, p2 / dp) else (0, 0, 0))\<rparr> \<and>
     err = sqrt (k0 * k0 + k1 * k1 + k2 * k2) \<and>
     dp = sqrt (p0 * p0 + p1 * p1 + p2 * p2)"
proof -
  obtain s0 s1 s2 where s: "start_point = (s0, s1, s2)" by (cases start_point) auto
  obtain e0 e1 e2 where e: "end_point = (e0, e1, e2)" by (cases end_point) auto
  obtain c0 c1 c2 where c: "cur_point = (c0, c1, c2)" by (cases cur_point) auto
  show ?thesis
    unfolding s e c path_vector_simp Let_def
    by (intro exI conjI; rule refl)
qed

lemma path_vector_dirs:
  "(vnorm (path_direction (path_vector start_point end_point cur_point st m)) = 1 \<or>
    path_direction (path_vector start_point end_point cur_point st m) = (0, 0, 0)) \<and>
   vnorm (correction_direction (path_vector start_point end_point cur_point st m)) = 1 \<and>
   0 \<le> error (path_vector start_point end_point cur_point st m)"
proof -
  obtain fp err k0 k1 k2 dp p0 p1 p2 where
    r: "path_vector start_point end_point cur_point st m =
       st\<lparr>fractional_progress := fp, error := err,
          correction_direction :=
            (if err > small then (k0 / err, k1 / err, k2 / err) else (0, 0, 1)),
          path_direction :=
            (if dp > small then (p0 / dp, p1 / dp, p2 / dp) else (0, 0, 0))\<rparr>"
    and err: "err = sqrt (k0 * k0 + k1 * k1 + k2 * k2)"
    and dp: "dp = sqrt (p0 * p0 + p1 * p1 + p2 * p2)"
    using path_vector_shape [of start_point end_point cur_point st m] by blast
  have a: "vnorm (p0 / dp, p1 / dp, p2 / dp) = 1" if "small < dp"
    using that small_pos by (intro vnorm_div [OF dp]) linarith
  have b: "vnorm (k0 / err, k1 / err, k2 / err) = 1" if "small < err"
    using that small_pos by (intro vnorm_div [OF err]) linarith
  have c: "0 \<le> err" by (simp add: err)
  show ?thesis using a b c by (simp add: r vnorm_unit_z)
qed

lemma path_endpoint_dirs:
  "vnorm (path_direction (path_endpoint start_point end_point cur_point st m)) = 1 \<and>
   correction_direction (path_endpoint start_point end_point cur_point st m) = (0, 0, 0) \<and>
   0 \<le> error (path_endpoint start_point end_point cur_point st m)"
proof -
  obtain s0 s1 s2 where s: "start_point = (s0, s1, s2)" by (cases start_point) auto
  obtain e0 e1 e2 where e: "end_point = (e0, e1, e2)" by (cases end_point) auto
  obtain c0 c1 c2 where c: "cur_point = (c0, c1, c2)" by (cases cur_point) auto
  define d2 where "d2 = (if m then e2 - c2 else 0)"
  define dd where "dd = sqrt ((e0 - c0) * (e0 - c0) + (e1 - c1) * (e1 - c1) + d2 * d2)"
  have u: "vnorm ((e0 - c0) / dd, (e1 - c1) / dd, d2 / dd) = 1" if "\<not> dd < small"
    using that small_pos by (intro vnorm_div [OF dd_def]) linarith
  have nn: "0 \<le> dd" by (simp add: dd_def)
  have "path_endpoint (s0, s1, s2) (e0, e1, e2) (c0, c1, c2) st m =
     (if dd < small
      then st\<lparr>fractional_progress := 1, error := 0, correction_direction := (0, 0, 0),
              path_direction := (0, 0, 1)\<rparr>
      else st\<lparr>fractional_progress :=
                (if sqrt ((e0 - s0) * (e0 - s0) + (e1 - s1) * (e1 - s1) +
                      (if m then e2 - s2 else 0) * (if m then e2 - s2 else 0)) + 1 > dd
                 then 1 - dd / (1 + sqrt ((e0 - s0) * (e0 - s0) + (e1 - s1) * (e1 - s1) +
                      (if m then e2 - s2 else 0) * (if m then e2 - s2 else 0)))
                 else 0),
              error := dd, correction_direction := (0, 0, 0),
              path_direction := ((e0 - c0) / dd, (e1 - c1) / dd, d2 / dd)\<rparr>)"
    by (simp only: path_endpoint_simp Let_def dd_def d2_def)
  then show ?thesis
    unfolding s e c using u nn by (simp add: vnorm_unit_z)
qed

lemma path_circle_dirs:
  "vnorm (path_direction (path_circle start_point end_point cur_point st cw)) = 1 \<and>
   vnorm (correction_direction (path_circle start_point end_point cur_point st cw)) = 1 \<and>
   0 \<le> error (path_circle start_point end_point cur_point st cw)"
proof -
  obtain s0 s1 s2 where s: "start_point = (s0, s1, s2)" by (cases start_point) auto
  obtain e0 e1 e2 where e: "end_point = (e0, e1, e2)" by (cases end_point) auto
  obtain c0 c1 c2 where c: "cur_point = (c0, c1, c2)" by (cases cur_point) auto
  define cr where "cr = sqrt ((c0 - e0) * (c0 - e0) + (c1 - e1) * (c1 - e1))"
  show ?thesis
  proof (cases "cr < small")
    case True
    then show ?thesis
      unfolding s e c cr_def
      by (simp add: path_circle_degenerate vnorm_unit_x vnorm_unit_y)
  next
    case False
    then have pos: "0 < cr" using small_pos by linarith
    have sq0: "(e0 - c0) * (e0 - c0) = (c0 - e0) * (c0 - e0)" by (simp add: algebra_simps)
    have sq1: "(e1 - c1) * (e1 - c1) = (c1 - e1) * (c1 - e1)" by (simp add: algebra_simps)
    note u = vnorm_flat_unit [OF cr_def pos]
    have u1: "vnorm ((c0 - e0) / cr, (c1 - e1) / cr, 0) = 1" by (rule u(1)) simp_all
    have u2: "vnorm ((e0 - c0) / cr, (e1 - c1) / cr, 0) = 1" by (rule u(1)) (simp_all add: sq0 sq1)
    have u3: "vnorm ((e1 - c1) / cr, (c0 - e0) / cr, 0) = 1" by (rule u(2)) (simp_all add: sq0 sq1)
    have u4: "vnorm ((c1 - e1) / cr, (e0 - c0) / cr, 0) = 1" by (rule u(2)) (simp_all add: sq0 sq1)
    have n: "\<not> sqrt ((c0 - e0) * (c0 - e0) + (c1 - e1) * (c1 - e1)) < small"
      using False by (simp add: cr_def)
    show ?thesis
      unfolding s e c
      using u1 u2 u3 u4
      by (simp add: path_circle_regular [OF n] Let_def cr_def [symmetric])
  qed
qed

subsection \<open>The dispatcher\<close>

lemma modes0_distinct: "modes_distinct modes0"
  by (simp add: modes_distinct_def mode_codes_def modes0_def)

lemma path_progress_select:
  "path_progress M s e c st mode = run_solver (select_solver M mode) s e c st"
  by (simp add: path_progress_def select_solver_def)

lemma select_unknown:
  "mode \<notin> set (mode_codes M) \<Longrightarrow> select_solver M mode = Endpoint False"
  by (simp add: select_solver_def mode_codes_def)

lemma select_known:
  assumes "modes_distinct M"
  shows "select_solver M (PATHDESIRED_MODE_FLYVECTOR M) = Vector True"
    and "select_solver M (PATHDESIRED_MODE_DRIVEVECTOR M) = Vector False"
    and "select_solver M (PATHDESIRED_MODE_FLYCIRCLERIGHT M) = Circle True"
    and "select_solver M (PATHDESIRED_MODE_DRIVECIRCLERIGHT M) = Circle True"
    and "select_solver M (PATHDESIRED_MODE_FLYCIRCLELEFT M) = Circle False"
    and "select_solver M (PATHDESIRED_MODE_DRIVECIRCLELEFT M) = Circle False"
    and "select_solver M (PATHDESIRED_MODE_FLYENDPOINT M) = Endpoint True"
    and "select_solver M (PATHDESIRED_MODE_DRIVEENDPOINT M) = Endpoint False"
  using assms by (auto simp add: select_solver_def modes_distinct_def mode_codes_def)

lemma sqrt_16: "sqrt 16 = 4"
  using real_sqrt_abs2 [of 4] by simp

lemma path_progress_known:
  assumes "modes_distinct M"
  shows "path_progress M s e c st (PATHDESIRED_MODE_FLYVECTOR M) = path_vector s e c st True"
    and "path_progress M s e c st (PATHDESIRED_MODE_DRIVEVECTOR M) = path_vector s e c st False"
    and "path_progress M s e c st (PATHDESIRED_MODE_FLYCIRCLERIGHT M) = path_circle s e c st True"
    and "path_progress M s e c st (PATHDESIRED_MODE_DRIVECIRCLERIGHT M) = path_circle s e c st True"
    and "path_progress M s e c st (PATHDESIRED_MODE_FLYCIRCLELEFT M) = path_circle s e c st False"
    and "path_progress M s e c st (PATHDESIRED_MODE_DRIVECIRCLELEFT M) = path_circle s e c st False"
    and "path_progress M s e c st (PATHDESIRED_MODE_FLYENDPOINT M) = path_endpoint s e c st True"
    and "path_progress M s e c st (PATHDESIRED_MODE_DRIVEENDPOINT M) = path_endpoint s e c st False"
  by (simp_all add: path_progress_select select_known [OF assms])

text \<open>
  C5. For every mode value that is none of the eight path-mode codes, \<open>path_progress\<close>
  returns what the endpoint solver returns with the 3D flag off. The result is a status
  record in every case: the dispatcher has no error outcome. For every mode, the result
  is that of the one solver the mode selects.
\<close>

theorem path_progress_unknown_mode:
  "(mode \<notin> set (mode_codes M) \<longrightarrow>
      select_solver M mode = Endpoint False \<and>
      path_progress M start_point end_point cur_point status mode =
        path_endpoint start_point end_point cur_point status False) \<and>
   path_progress M start_point end_point cur_point status mode =
     run_solver (select_solver M mode) start_point end_point cur_point status"
  by (simp add: path_progress_select select_unknown)

text \<open>The code 200 is not a path mode: the vertical offset of 4 is ignored.\<close>

theorem path_progress_unknown_mode_witness:
  "200 \<notin> set (mode_codes modes0) \<and>
   path_progress modes0 (0, 0, 0) (10, 0, 0) (5, 0, 4) status0 200 =
     path_endpoint (0, 0, 0) (10, 0, 0) (5, 0, 4) status0 False \<and>
   path_progress modes0 (0, 0, 0) (10, 0, 0) (5, 0, 4) status0 200 =
     \<lparr>fractional_progress = 6 / 11, error = 5, correction_direction = (0, 0, 0),
      path_direction = (1, 0, 0)\<rparr>"
proof -
  have h: "200 \<notin> set (mode_codes modes0)"
    by (simp add: mode_codes_def modes0_def)
  have v: "path_endpoint (0, 0, 0) (10, 0, 0) (5, 0, 4) status0 False =
     \<lparr>fractional_progress = 6 / 11, error = 5, correction_direction = (0, 0, 0),
      path_direction = (1, 0, 0)\<rparr>"
    by (simp add: path_endpoint_simp Let_def small_def sqrt_25 sqrt_100 status0_def)
  show ?thesis
    using h v path_progress_unknown_mode [of 200 modes0 "(0, 0, 0)" "(10, 0, 0)" "(5, 0, 4)" status0]
    by simp
qed

text \<open>
  In exact arithmetic the path direction and the correction direction have length 1 after
  every call, with two exceptions, both the zero vector: the correction direction of the
  endpoint solver and the path direction of the vector solver on a path shorter than
  \<open>1e-6\<close>. In exact arithmetic the error is non-negative after every call.
\<close>

lemma path_progress_unit_directions_exact:
  "let r = path_progress M start_point end_point cur_point status mode
   in (case select_solver M mode of
         Endpoint mode3D \<Rightarrow>
           vnorm (path_direction r) = 1 \<and> correction_direction r = (0, 0, 0)
       | Vector mode3D \<Rightarrow>
           (vnorm (path_direction r) = 1 \<or> path_direction r = (0, 0, 0)) \<and>
           vnorm (correction_direction r) = 1
       | Circle clockwise \<Rightarrow>
           vnorm (path_direction r) = 1 \<and> vnorm (correction_direction r) = 1)"
  unfolding Let_def path_progress_select
  by (cases "select_solver M mode")
     (simp_all add: path_endpoint_dirs path_vector_dirs path_circle_dirs)

lemma path_progress_error_nonneg_exact:
  "0 \<le> error (path_progress M start_point end_point cur_point status mode)"
  unfolding path_progress_select
  by (cases "select_solver M mode")
     (simp_all add: path_endpoint_dirs path_vector_dirs path_circle_dirs)

lemma path_endpoint_horiz:
  "path_endpoint s e c st False = path_endpoint (horiz s) (horiz e) (horiz c) st True"
proof -
  obtain s0 s1 s2 where s: "s = (s0, s1, s2)" by (cases s) auto
  obtain e0 e1 e2 where e: "e = (e0, e1, e2)" by (cases e) auto
  obtain c0 c1 c2 where c: "c = (c0, c1, c2)" by (cases c) auto
  show ?thesis
    unfolding s e c by (simp add: horiz_def path_endpoint_simp)
qed

lemma path_circle_horiz:
  "path_circle s e c st cw = path_circle (horiz s) (horiz e) (horiz c) st cw"
proof -
  obtain s0 s1 s2 where s: "s = (s0, s1, s2)" by (cases s) auto
  obtain e0 e1 e2 where e: "e = (e0, e1, e2)" by (cases e) auto
  obtain c0 c1 c2 where c: "c = (c0, c1, c2)" by (cases c) auto
  show ?thesis
    unfolding s e c by (simp add: horiz_def path_circle_def)
qed

lemma path_vector_horiz:
  "fractional_progress (path_vector s e c st False) =
     fractional_progress (path_vector (horiz s) (horiz e) (horiz c) st True) \<and>
   path_direction (path_vector s e c st False) =
     path_direction (path_vector (horiz s) (horiz e) (horiz c) st True)"
proof -
  obtain s0 s1 s2 where s: "s = (s0, s1, s2)" by (cases s) auto
  obtain e0 e1 e2 where e: "e = (e0, e1, e2)" by (cases e) auto
  obtain c0 c1 c2 where c: "c = (c0, c1, c2)" by (cases c) auto
  show ?thesis
    unfolding s e c by (simp add: horiz_def path_vector_simp Let_def)
qed

lemma vector_drive_offset:
  "error (path_vector (0, 0, 0) (10, 0, 0) (5, 0, 4) st False) = 4 \<and>
   error (path_vector (0, 0, 0) (10, 0, 0) (5, 0, 0) st False) = 0"
  by (simp add: path_vector_simp Let_def boundf_def small_def sqrt_100 sqrt_16)

lemma vector_fly_climb:
  "fractional_progress (path_vector (0, 0, 0) (0, 0, 10) (0, 0, 5) st True) = 1 / 2 \<and>
   fractional_progress (path_vector (0, 0, 0) (0, 0, 10) (0, 0, 5) st False) = 1"
  by (simp add: path_vector_simp Let_def boundf_def small_def sqrt_100)

lemma endpoint_fly_climb:
  "error (path_endpoint (0, 0, 0) (0, 0, 0) (0, 0, 1) st True) = 1 \<and>
   error (path_endpoint (0, 0, 0) (0, 0, 0) (0, 0, 1) st False) = 0"
  by (simp add: path_endpoint_simp Let_def small_def)

text \<open>
  C6, as amended. In the modes fly-vector and fly-endpoint the solver runs with the 3D
  flag on, so the vertical axis takes part in distance and progress (a climb of 10 half
  done is progress 1/2 in fly-vector and progress 1 in drive-vector; a point 1 above the
  endpoint has error 1 in fly-endpoint and 0 in drive-endpoint). Drive-endpoint returns
  what the 3D endpoint solver returns on the horizontal projections of the three points.
  In drive-vector the progress and the path direction are those of the 3D vector solver
  on the horizontal projections. All four circle modes, fly and drive alike, return what
  the circle solver returns on the horizontal projections: the circle solver never reads
  a vertical component.
\<close>

theorem path_progress_vertical_axis:
  assumes "modes_distinct M"
  shows
    "path_progress M s e c st (PATHDESIRED_MODE_FLYVECTOR M) = path_vector s e c st True \<and>
     path_progress M s e c st (PATHDESIRED_MODE_FLYENDPOINT M) = path_endpoint s e c st True \<and>
     fractional_progress
       (path_progress M (0, 0, 0) (0, 0, 10) (0, 0, 5) st (PATHDESIRED_MODE_FLYVECTOR M)) = 1 / 2 \<and>
     fractional_progress
       (path_progress M (0, 0, 0) (0, 0, 10) (0, 0, 5) st (PATHDESIRED_MODE_DRIVEVECTOR M)) = 1 \<and>
     error (path_progress M (0, 0, 0) (0, 0, 0) (0, 0, 1) st (PATHDESIRED_MODE_FLYENDPOINT M)) = 1 \<and>
     error (path_progress M (0, 0, 0) (0, 0, 0) (0, 0, 1) st (PATHDESIRED_MODE_DRIVEENDPOINT M)) = 0 \<and>
     path_progress M s e c st (PATHDESIRED_MODE_DRIVEENDPOINT M) =
       path_endpoint (horiz s) (horiz e) (horiz c) st True \<and>
     fractional_progress (path_progress M s e c st (PATHDESIRED_MODE_DRIVEVECTOR M)) =
       fractional_progress (path_vector (horiz s) (horiz e) (horiz c) st True) \<and>
     path_direction (path_progress M s e c st (PATHDESIRED_MODE_DRIVEVECTOR M)) =
       path_direction (path_vector (horiz s) (horiz e) (horiz c) st True) \<and>
     path_progress M s e c st (PATHDESIRED_MODE_FLYCIRCLERIGHT M) =
       path_circle (horiz s) (horiz e) (horiz c) st True \<and>
     path_progress M s e c st (PATHDESIRED_MODE_DRIVECIRCLERIGHT M) =
       path_circle (horiz s) (horiz e) (horiz c) st True \<and>
     path_progress M s e c st (PATHDESIRED_MODE_FLYCIRCLELEFT M) =
       path_circle (horiz s) (horiz e) (horiz c) st False \<and>
     path_progress M s e c st (PATHDESIRED_MODE_DRIVECIRCLELEFT M) =
       path_circle (horiz s) (horiz e) (horiz c) st False"
  unfolding path_progress_known [OF assms]
  using path_endpoint_horiz [of s e c st] path_vector_horiz [of s e c st]
    path_circle_horiz [of s e c st True] path_circle_horiz [of s e c st False]
    vector_fly_climb [of st] endpoint_fly_climb [of st]
  by simp

text \<open>The vertical components 3, 5 and 7 have no effect in fly-circle-left and drive-endpoint.\<close>

theorem path_progress_vertical_axis_witness:
  "modes_distinct modes0 \<and>
   path_progress modes0 (0, 0, 3) (10, 0, 5) (20, 0, 7) status0 (PATHDESIRED_MODE_FLYCIRCLELEFT modes0) =
     path_circle (0, 0, 0) (10, 0, 0) (20, 0, 0) status0 False \<and>
   path_progress modes0 (0, 0, 3) (10, 0, 5) (5, 0, 7) status0 (PATHDESIRED_MODE_DRIVEENDPOINT modes0) =
     path_endpoint (0, 0, 0) (10, 0, 0) (5, 0, 0) status0 True"
  using modes0_distinct
    path_progress_vertical_axis [OF modes0_distinct, of "(0, 0, 3)" "(10, 0, 5)" "(20, 0, 7)" status0]
    path_progress_vertical_axis [OF modes0_distinct, of "(0, 0, 3)" "(10, 0, 5)" "(5, 0, 7)" status0]
  by (simp add: horiz_def)

text \<open>
  C6 as stated fails twice. In fly-circle-left, a current point 7 above the plane of the
  circle gets the same status as the point below it on the circle, with error 0. In
  drive-vector, a current point on the track horizontally and 4 away vertically gets
  error 4, where its horizontal projection gets error 0.
\<close>

theorem path_progress_vertical_axis_counterexample:
  "path_progress modes0 (0, 0, 0) (10, 0, 0) (20, 0, 7) status0 (PATHDESIRED_MODE_FLYCIRCLELEFT modes0) =
     path_progress modes0 (0, 0, 0) (10, 0, 0) (20, 0, 0) status0 (PATHDESIRED_MODE_FLYCIRCLELEFT modes0) \<and>
   error (path_progress modes0 (0, 0, 0) (10, 0, 0) (20, 0, 7) status0
            (PATHDESIRED_MODE_FLYCIRCLELEFT modes0)) = 0 \<and>
   error (path_progress modes0 (0, 0, 0) (10, 0, 0) (5, 0, 4) status0
            (PATHDESIRED_MODE_DRIVEVECTOR modes0)) = 4 \<and>
   error (path_progress modes0 (0, 0, 0) (10, 0, 0) (5, 0, 0) status0
            (PATHDESIRED_MODE_DRIVEVECTOR modes0)) = 0"
proof -
  have n: "\<not> sqrt ((20 - 10) * (20 - 10) + (0 - 0) * (0 - 0)) < small"
    by (simp add: small_def sqrt_100)
  have a: "path_circle (0, 0, 0) (10, 0, 0) (20, 0, 7) status0 False =
           path_circle (0, 0, 0) (10, 0, 0) (20, 0, 0) status0 False"
    using path_circle_horiz [of "(0, 0, 0)" "(10, 0, 0)" "(20, 0, 7)" status0 False]
    by (simp add: horiz_def)
  have b: "error (path_circle (0, 0, 0) (10, 0, 0) (20, 0, 0) status0 False) = 0"
    by (simp add: path_circle_regular [OF n] Let_def sqrt_100)
  show ?thesis
    unfolding path_progress_known [OF modes0_distinct]
    using a b vector_drive_offset [of status0] by simp
qed

section \<open>Properties over floats with overflow and NaN\<close>

subsection \<open>Finite results\<close>

lemma FLT_MAX_ge_1: "1 \<le> FLT_MAX" by (simp add: FLT_MAX_def)

lemma to_float_in_range: "\<bar>r\<bar> \<le> FLT_MAX \<Longrightarrow> to_float r = Fin r"
  by (auto simp add: to_float_def)

lemma to_float_unit: "\<bar>r\<bar> \<le> 1 \<Longrightarrow> to_float r = Fin r"
  using FLT_MAX_ge_1 by (intro to_float_in_range) linarith

lemma to_float_Fin: "to_float r = Fin s \<Longrightarrow> s = r \<and> \<bar>r\<bar> \<le> FLT_MAX"
  by (auto simp add: to_float_def split: if_splits)

lemma is_finD: "is_fin a \<Longrightarrow> \<exists>d. a = Fin d"
  by (cases a) simp_all

lemma fsqrtf_Fin:
  assumes "fsqrtf a = Fin d"
  shows "\<exists>S. a = Fin S \<and> 0 \<le> S \<and> d = sqrt S"
  using assms by (cases a) (auto split: if_splits)

lemma fadd_Fin:
  assumes "fadd a b = Fin s"
  shows "\<exists>x y. a = Fin x \<and> b = Fin y \<and> s = x + y"
  using assms by (cases a; cases b) (auto dest: to_float_Fin)

lemma square_bound:
  assumes "x * x \<le> M" and "1 \<le> (M::real)"
  shows "\<bar>x\<bar> \<le> M"
proof (cases "\<bar>x\<bar> \<le> 1")
  case True
  then show ?thesis using assms(2) by linarith
next
  case False
  then have "1 \<le> \<bar>x\<bar>" by linarith
  then have "\<bar>x\<bar> * 1 \<le> \<bar>x\<bar> * \<bar>x\<bar>" by (intro mult_left_mono) simp_all
  then have "\<bar>x\<bar> \<le> x * x" by (simp add: abs_mult_self_eq)
  then show ?thesis using assms(1) by linarith
qed

lemma fmul_self_Fin:
  assumes "fmul a a = Fin s"
  shows "\<exists>x. a = Fin x \<and> s = x * x \<and> \<bar>x\<bar> \<le> FLT_MAX"
proof (cases a)
  case (Fin x)
  then have t: "to_float (x * x) = Fin s" using assms by simp
  have "s = x * x \<and> \<bar>x * x\<bar> \<le> FLT_MAX" using to_float_Fin [OF t] by simp
  then have "s = x * x" and "x * x \<le> FLT_MAX" by simp_all
  then show ?thesis using Fin square_bound [OF _ FLT_MAX_ge_1] by blast
qed (use assms in \<open>simp_all add: signed_inf_def\<close>)

lemma norm3_Fin:
  assumes "fsqrtf (fadd (fadd (fmul a a) (fmul b b)) (fmul c c)) = Fin d"
  shows "\<exists>x y z. a = Fin x \<and> b = Fin y \<and> c = Fin z \<and> d = sqrt (x * x + y * y + z * z) \<and>
           \<bar>x\<bar> \<le> FLT_MAX \<and> \<bar>y\<bar> \<le> FLT_MAX \<and> \<bar>z\<bar> \<le> FLT_MAX"
proof -
  obtain S where S: "fadd (fadd (fmul a a) (fmul b b)) (fmul c c) = Fin S" "d = sqrt S"
    using fsqrtf_Fin [OF assms] by blast
  obtain u w where u: "fadd (fmul a a) (fmul b b) = Fin u" and w: "fmul c c = Fin w"
    and Suw: "S = u + w"
    using fadd_Fin [OF S(1)] by blast
  obtain p q where p: "fmul a a = Fin p" and q: "fmul b b = Fin q" and upq: "u = p + q"
    using fadd_Fin [OF u] by blast
  obtain x where x: "a = Fin x" "p = x * x" "\<bar>x\<bar> \<le> FLT_MAX" using fmul_self_Fin [OF p] by blast
  obtain y where y: "b = Fin y" "q = y * y" "\<bar>y\<bar> \<le> FLT_MAX" using fmul_self_Fin [OF q] by blast
  obtain z where z: "c = Fin z" "w = z * z" "\<bar>z\<bar> \<le> FLT_MAX" using fmul_self_Fin [OF w] by blast
  show ?thesis using x y z S(2) Suw upq by simp
qed

lemma norm2_Fin:
  assumes "fsqrtf (fadd (fmul a a) (fmul b b)) = Fin d"
  shows "\<exists>x y. a = Fin x \<and> b = Fin y \<and> d = sqrt (x * x + y * y) \<and>
           \<bar>x\<bar> \<le> FLT_MAX \<and> \<bar>y\<bar> \<le> FLT_MAX"
proof -
  obtain S where S: "fadd (fmul a a) (fmul b b) = Fin S" "d = sqrt S"
    using fsqrtf_Fin [OF assms] by blast
  obtain p q where p: "fmul a a = Fin p" and q: "fmul b b = Fin q" and Spq: "S = p + q"
    using fadd_Fin [OF S(1)] by blast
  obtain x where x: "a = Fin x" "p = x * x" "\<bar>x\<bar> \<le> FLT_MAX" using fmul_self_Fin [OF p] by blast
  obtain y where y: "b = Fin y" "q = y * y" "\<bar>y\<bar> \<le> FLT_MAX" using fmul_self_Fin [OF q] by blast
  show ?thesis using x y S(2) Spq by simp
qed

lemma fsqrtf_never_negative: "fsqrtf a = NaN \<or> fgeq (fsqrtf a) (Fin 0)"
  by (cases a) simp_all

lemma ffabs_never_negative: "ffabs a = NaN \<or> fgeq (ffabs a) (Fin 0)"
  by (cases a) simp_all

lemma abs_le_oneI: "0 \<le> r \<Longrightarrow> r \<le> 1 \<Longrightarrow> \<bar>r::real\<bar> \<le> 1"
  by simp

lemma vnorm_f_unit:
  assumes "a * a + b * b + c * c = 1"
  shows "vnorm_f (Fin a, Fin b, Fin c) = Fin 1"
proof -
  have nn: "0 \<le> a * a" "0 \<le> b * b" "0 \<le> c * c" by simp_all
  have b1: "\<bar>a * a\<bar> \<le> 1" using assms nn by (intro abs_le_oneI) linarith+
  have b2: "\<bar>b * b\<bar> \<le> 1" using assms nn by (intro abs_le_oneI) linarith+
  have b3: "\<bar>c * c\<bar> \<le> 1" using assms nn by (intro abs_le_oneI) linarith+
  have nn4: "0 \<le> a * a + b * b" using nn by linarith
  have b4: "\<bar>a * a + b * b\<bar> \<le> 1" using assms nn by (intro abs_le_oneI) linarith+
  show ?thesis
    by (simp add: vnorm_f_def to_float_unit [OF b1] to_float_unit [OF b2] to_float_unit [OF b3]
          to_float_unit [OF b4] assms to_float_unit)
qed

lemma abs_le_norm3:
  "\<bar>x\<bar> \<le> sqrt (x * x + y * y + z * z)"
  "\<bar>y\<bar> \<le> sqrt (x * x + y * y + z * z)"
  "\<bar>z\<bar> \<le> sqrt (x * x + y * y + z * z)"
proof -
  have "sqrt (x * x) \<le> sqrt (x * x + y * y + z * z)" by (intro real_sqrt_le_mono) simp
  then show "\<bar>x\<bar> \<le> sqrt (x * x + y * y + z * z)" by simp
  have "sqrt (y * y) \<le> sqrt (x * x + y * y + z * z)" by (intro real_sqrt_le_mono) simp
  then show "\<bar>y\<bar> \<le> sqrt (x * x + y * y + z * z)" by simp
  have "sqrt (z * z) \<le> sqrt (x * x + y * y + z * z)" by (intro real_sqrt_le_mono) simp
  then show "\<bar>z\<bar> \<le> sqrt (x * x + y * y + z * z)" by simp
qed

lemma fdiv_by_norm:
  assumes "\<bar>x\<bar> \<le> d" and "0 < d"
  shows "fdiv (Fin x) (Fin d) = Fin (x / d)"
proof -
  have "\<bar>x / d\<bar> \<le> 1" using assms by simp
  then show ?thesis using assms(2) by (simp add: to_float_unit)
qed

lemma unit_quotients:
  assumes "d = sqrt (x * x + y * y + z * z)" and "0 < d"
  shows "(x / d) * (x / d) + (y / d) * (y / d) + (z / d) * (z / d) = 1"
proof -
  have "sqrt ((x / d) * (x / d) + (y / d) * (y / d) + (z / d) * (z / d)) = 1"
    by (rule unit3 [OF assms])
  then show ?thesis by simp
qed

lemma normalised_f:
  assumes d: "d = sqrt (x * x + y * y + z * z)" and pos: "0 < d"
  shows "fdiv (Fin x) (Fin d) = Fin (x / d)"
    and "fdiv (Fin y) (Fin d) = Fin (y / d)"
    and "fdiv (Fin z) (Fin d) = Fin (z / d)"
    and "vnorm_f (Fin (x / d), Fin (y / d), Fin (z / d)) = Fin 1"
proof -
  show "fdiv (Fin x) (Fin d) = Fin (x / d)"
    using abs_le_norm3(1) [of x y z] pos unfolding d by (intro fdiv_by_norm)
  show "fdiv (Fin y) (Fin d) = Fin (y / d)"
    using abs_le_norm3(2) [of y x z] pos unfolding d by (intro fdiv_by_norm)
  show "fdiv (Fin z) (Fin d) = Fin (z / d)"
    using abs_le_norm3(3) [of z x y] pos unfolding d by (intro fdiv_by_norm)
  show "vnorm_f (Fin (x / d), Fin (y / d), Fin (z / d)) = Fin 1"
    by (intro vnorm_f_unit unit_quotients [OF d pos])
qed

subsection \<open>Directions and error of the three solvers\<close>

lemma vnorm_f_z: "vnorm_f (Fin 0, Fin 0, Fin 1) = Fin 1" by (intro vnorm_f_unit) simp
lemma vnorm_f_y: "vnorm_f (Fin 0, Fin 1, Fin 0) = Fin 1" by (intro vnorm_f_unit) simp
lemma vnorm_f_x: "vnorm_f (Fin 1, Fin 0, Fin 0) = Fin 1" by (intro vnorm_f_unit) simp

lemma path_endpoint_f_simp:
  "path_endpoint_f (s0, s1, s2) (e0, e1, e2) (c0, c1, c2) st m =
     (let d0 = fsub e0 c0;
          d1 = fsub e1 c1;
          d2 = (if m then fsub e2 c2 else Fin 0);
          p0 = fsub e0 s0;
          p1 = fsub e1 s1;
          p2 = (if m then fsub e2 s2 else Fin 0);
          dd = fsqrtf (fadd (fadd (fmul d0 d0) (fmul d1 d1)) (fmul d2 d2));
          dp = fsqrtf (fadd (fadd (fmul p0 p0) (fmul p1 p1)) (fmul p2 p2))
      in if fless dd (Fin small)
         then st\<lparr>fractional_progress_f := Fin 1, error_f := Fin 0,
                 correction_direction_f := (Fin 0, Fin 0, Fin 0),
                 path_direction_f := (Fin 0, Fin 0, Fin 1)\<rparr>
         else st\<lparr>fractional_progress_f :=
                   (if fgreater (fadd dp (Fin 1)) dd
                    then fsub (Fin 1) (fdiv dd (fadd (Fin 1) dp)) else Fin 0),
                 error_f := dd, correction_direction_f := (Fin 0, Fin 0, Fin 0),
                 path_direction_f := (fdiv d0 dd, fdiv d1 dd, fdiv d2 dd)\<rparr>)"
  by (simp add: path_endpoint_f_def Let_def)

lemma path_endpoint_f_props:
  "correction_direction_f (path_endpoint_f s e c st m) = (Fin 0, Fin 0, Fin 0) \<and>
   (is_fin (vnorm_f (flat_f m (vsub_f e c))) \<longrightarrow>
      vnorm_f (path_direction_f (path_endpoint_f s e c st m)) = Fin 1) \<and>
   (error_f (path_endpoint_f s e c st m) = NaN \<or>
    fgeq (error_f (path_endpoint_f s e c st m)) (Fin 0))"
proof -
  obtain s0 s1 s2 where s: "s = (s0, s1, s2)" by (cases s) auto
  obtain e0 e1 e2 where e: "e = (e0, e1, e2)" by (cases e) auto
  obtain c0 c1 c2 where c: "c = (c0, c1, c2)" by (cases c) auto
  define d0 where "d0 = fsub e0 c0"
  define d1 where "d1 = fsub e1 c1"
  define d2 where "d2 = (if m then fsub e2 c2 else Fin 0)"
  define dd where "dd = fsqrtf (fadd (fadd (fmul d0 d0) (fmul d1 d1)) (fmul d2 d2))"
  define r where "r = path_endpoint_f (s0, s1, s2) (e0, e1, e2) (c0, c1, c2) st m"
  have len: "vnorm_f (flat_f m (vsub_f (e0, e1, e2) (c0, c1, c2))) = dd"
    by (simp add: vnorm_f_def flat_f_def vsub_f_def dd_def d0_def d1_def d2_def)
  have corr: "correction_direction_f r = (Fin 0, Fin 0, Fin 0)"
    by (simp add: r_def path_endpoint_f_simp Let_def)
  have err: "error_f r = (if fless dd (Fin small) then Fin 0 else dd)"
    unfolding r_def path_endpoint_f_simp Let_def
    by (simp add: dd_def d0_def d1_def d2_def)
  have pd: "path_direction_f r =
      (if fless dd (Fin small) then (Fin 0, Fin 0, Fin 1)
       else (fdiv d0 dd, fdiv d1 dd, fdiv d2 dd))"
    unfolding r_def path_endpoint_f_simp Let_def
    by (simp add: dd_def d0_def d1_def d2_def)
  have nonneg: "error_f r = NaN \<or> fgeq (error_f r) (Fin 0)"
    unfolding err using fsqrtf_never_negative [of "fadd (fadd (fmul d0 d0) (fmul d1 d1)) (fmul d2 d2)"]
    by (simp add: dd_def)
  have unit: "vnorm_f (path_direction_f r) = Fin 1" if fin: "is_fin dd"
  proof -
    obtain d where d: "dd = Fin d" using is_finD [OF fin] by blast
    obtain x y z where xyz: "d0 = Fin x" "d1 = Fin y" "d2 = Fin z"
      and dn: "d = sqrt (x * x + y * y + z * z)"
      using norm3_Fin [of d0 d1 d2 d] d unfolding dd_def by blast
    show ?thesis
    proof (cases "d < small")
      case True
      then show ?thesis by (simp add: pd d vnorm_f_z)
    next
      case False
      then have pos: "0 < d" using small_pos by linarith
      show ?thesis
        using False by (simp add: pd d xyz normalised_f [OF dn pos] del: fdiv.simps)
    qed
  qed
  show ?thesis
    unfolding s e c len r_def [symmetric] using corr unit nonneg by blast
qed

lemma path_vector_f_simp:
  "path_vector_f (s0, s1, s2) (e0, e1, e2) (c0, c1, c2) st m =
     (let p0 = fsub e0 s0;
          p1 = fsub e1 s1;
          p2 = (if m then fsub e2 s2 else Fin 0);
          d0 = fsub c0 s0;
          d1 = fsub c1 s1;
          d2 = (if m then fsub c2 s2 else Fin 0);
          dp = fsqrtf (fadd (fadd (fmul p0 p0) (fmul p1 p1)) (fmul p2 p2));
          fp = (if fgreater dp (Fin small)
                then fboundf (fdiv (fadd (fadd (fmul p0 d0) (fmul p1 d1)) (fmul p2 d2))
                                (fmul dp dp)) (Fin 0) (Fin 1)
                else fboundf (Fin 1) (Fin 0) (Fin 1));
          k0 = fsub (fadd (fmul fp p0) s0) c0;
          k1 = fsub (fadd (fmul fp p1) s1) c1;
          k2 = fsub (fadd (fmul fp p2) s2) c2;
          err = fsqrtf (fadd (fadd (fmul k0 k0) (fmul k1 k1)) (fmul k2 k2))
      in st\<lparr>fractional_progress_f := fp,
            error_f := err,
            correction_direction_f :=
              (if fgreater err (Fin small) then (fdiv k0 err, fdiv k1 err, fdiv k2 err)
               else (Fin 0, Fin 0, Fin 1)),
            path_direction_f :=
              (if fgreater dp (Fin small) then (fdiv p0 dp, fdiv p1 dp, fdiv p2 dp)
               else (Fin 0, Fin 0, Fin 0))\<rparr>)"
  by (cases m) (simp_all add: path_vector_f_def Let_def)

lemma path_vector_f_shape:
  "\<exists>fp err k0 k1 k2 dp p0 p1 p2.
     path_vector_f s e c st m =
       st\<lparr>fractional_progress_f := fp, error_f := err,
          correction_direction_f :=
            (if fgreater err (Fin small) then (fdiv k0 err, fdiv k1 err, fdiv k2 err)
             else (Fin 0, Fin 0, Fin 1)),
          path_direction_f :=
            (if fgreater dp (Fin small) then (fdiv p0 dp, fdiv p1 dp, fdiv p2 dp)
             else (Fin 0, Fin 0, Fin 0))\<rparr> \<and>
     err = fsqrtf (fadd (fadd (fmul k0 k0) (fmul k1 k1)) (fmul k2 k2)) \<and>
     dp = fsqrtf (fadd (fadd (fmul p0 p0) (fmul p1 p1)) (fmul p2 p2)) \<and>
     dp = vnorm_f (flat_f m (vsub_f e s))"
proof -
  obtain s0 s1 s2 where s: "s = (s0, s1, s2)" by (cases s) auto
  obtain e0 e1 e2 where e: "e = (e0, e1, e2)" by (cases e) auto
  obtain c0 c1 c2 where c: "c = (c0, c1, c2)" by (cases c) auto
  have len: "vnorm_f (flat_f m (vsub_f (e0, e1, e2) (s0, s1, s2))) =
      fsqrtf (fadd (fadd (fmul (fsub e0 s0) (fsub e0 s0)) (fmul (fsub e1 s1) (fsub e1 s1)))
                (fmul (if m then fsub e2 s2 else Fin 0) (if m then fsub e2 s2 else Fin 0)))"
    by (simp add: vnorm_f_def flat_f_def vsub_f_def)
  show ?thesis
    unfolding s e c len path_vector_f_simp Let_def
    by (intro exI conjI; rule refl)
qed

lemma direction_f_unit:
  assumes len: "dd = fsqrtf (fadd (fadd (fmul a a) (fmul b b)) (fmul c c))"
    and fin: "is_fin dd"
  shows "vnorm_f (if fgreater dd (Fin small) then (fdiv a dd, fdiv b dd, fdiv c dd)
                  else (Fin 0, Fin 0, Fin 1)) = Fin 1"
    and "vnorm_f (if fgreater dd (Fin small) then (fdiv a dd, fdiv b dd, fdiv c dd)
                  else (Fin 0, Fin 0, Fin 0)) = Fin 1 \<or>
         (if fgreater dd (Fin small) then (fdiv a dd, fdiv b dd, fdiv c dd)
          else (Fin 0, Fin 0, Fin 0)) = (Fin 0, Fin 0, Fin 0)"
proof -
  obtain d where d: "dd = Fin d" using is_finD [OF fin] by blast
  obtain x y z where xyz: "a = Fin x" "b = Fin y" "c = Fin z"
    and dn: "d = sqrt (x * x + y * y + z * z)"
    using norm3_Fin [of a b c d] d len by metis
  have u: "vnorm_f (fdiv a dd, fdiv b dd, fdiv c dd) = Fin 1" if "small < d"
  proof -
    have pos: "0 < d" using that small_pos by linarith
    show ?thesis by (simp add: d xyz normalised_f [OF dn pos] del: fdiv.simps)
  qed
  show "vnorm_f (if fgreater dd (Fin small) then (fdiv a dd, fdiv b dd, fdiv c dd)
                  else (Fin 0, Fin 0, Fin 1)) = Fin 1"
    using u by (simp add: fgreater_def d vnorm_f_z del: fdiv.simps)
  show "vnorm_f (if fgreater dd (Fin small) then (fdiv a dd, fdiv b dd, fdiv c dd)
                  else (Fin 0, Fin 0, Fin 0)) = Fin 1 \<or>
         (if fgreater dd (Fin small) then (fdiv a dd, fdiv b dd, fdiv c dd)
          else (Fin 0, Fin 0, Fin 0)) = (Fin 0, Fin 0, Fin 0)"
    using u by (simp add: fgreater_def d del: fdiv.simps)
qed

lemma path_vector_f_props:
  "(is_fin (vnorm_f (flat_f m (vsub_f e s))) \<longrightarrow>
      vnorm_f (path_direction_f (path_vector_f s e c st m)) = Fin 1 \<or>
      path_direction_f (path_vector_f s e c st m) = (Fin 0, Fin 0, Fin 0)) \<and>
   (is_fin (error_f (path_vector_f s e c st m)) \<longrightarrow>
      vnorm_f (correction_direction_f (path_vector_f s e c st m)) = Fin 1) \<and>
   (error_f (path_vector_f s e c st m) = NaN \<or>
    fgeq (error_f (path_vector_f s e c st m)) (Fin 0))"
proof -
  obtain fp err k0 k1 k2 dp p0 p1 p2 where
    r: "path_vector_f s e c st m =
       st\<lparr>fractional_progress_f := fp, error_f := err,
          correction_direction_f :=
            (if fgreater err (Fin small) then (fdiv k0 err, fdiv k1 err, fdiv k2 err)
             else (Fin 0, Fin 0, Fin 1)),
          path_direction_f :=
            (if fgreater dp (Fin small) then (fdiv p0 dp, fdiv p1 dp, fdiv p2 dp)
             else (Fin 0, Fin 0, Fin 0))\<rparr>"
    and err: "err = fsqrtf (fadd (fadd (fmul k0 k0) (fmul k1 k1)) (fmul k2 k2))"
    and dp: "dp = fsqrtf (fadd (fadd (fmul p0 p0) (fmul p1 p1)) (fmul p2 p2))"
    and len: "dp = vnorm_f (flat_f m (vsub_f e s))"
    using path_vector_f_shape [of s e c st m] by blast
  have a: "error_f (path_vector_f s e c st m) = err" by (simp add: r)
  have b: "err = NaN \<or> fgeq err (Fin 0)"
    unfolding err by (rule fsqrtf_never_negative)
  have pd: "path_direction_f (path_vector_f s e c st m) =
      (if fgreater dp (Fin small) then (fdiv p0 dp, fdiv p1 dp, fdiv p2 dp)
       else (Fin 0, Fin 0, Fin 0))"
    by (simp add: r)
  have cd: "correction_direction_f (path_vector_f s e c st m) =
      (if fgreater err (Fin small) then (fdiv k0 err, fdiv k1 err, fdiv k2 err)
       else (Fin 0, Fin 0, Fin 1))"
    by (simp add: r)
  show ?thesis
    unfolding a pd cd len [symmetric]
    using b direction_f_unit(2) [OF dp] direction_f_unit(1) [OF err] by blast
qed

lemma path_circle_f_fields:
  "error_f (path_circle_f (s0, s1, s2) (e0, e1, e2) (c0, c1, c2) st cw) =
     (if fless (fsqrtf (fadd (fpowf_2 (fsub c0 e0)) (fpowf_2 (fsub c1 e1)))) (Fin small)
      then fsqrtf (fadd (fpowf_2 (fsub e0 s0)) (fpowf_2 (fsub e1 s1)))
      else ffabs (fsub (fsqrtf (fadd (fpowf_2 (fsub e0 s0)) (fpowf_2 (fsub e1 s1))))
                       (fsqrtf (fadd (fpowf_2 (fsub c0 e0)) (fpowf_2 (fsub c1 e1))))))"
  "path_direction_f (path_circle_f (s0, s1, s2) (e0, e1, e2) (c0, c1, c2) st cw) =
     (let dn = fsub c0 e0; de = fsub c1 e1;
          cr = fsqrtf (fadd (fpowf_2 dn) (fpowf_2 de))
      in if fless cr (Fin small) then (Fin 1, Fin 0, Fin 0)
         else if cw then (fdiv (fneg de) cr, fdiv dn cr, Fin 0)
         else (fdiv de cr, fdiv (fneg dn) cr, Fin 0))"
  "correction_direction_f (path_circle_f (s0, s1, s2) (e0, e1, e2) (c0, c1, c2) st cw) =
     (let dn = fsub c0 e0; de = fsub c1 e1;
          cr = fsqrtf (fadd (fpowf_2 dn) (fpowf_2 de));
          sg = (if fgreater (fsub (fsqrtf (fadd (fpowf_2 (fsub e0 s0)) (fpowf_2 (fsub e1 s1)))) cr)
                     (Fin 0)
                then Fin 1 else Fin (- 1))
      in if fless cr (Fin small) then (Fin 0, Fin 1, Fin 0)
         else (fdiv (fmul sg dn) cr, fdiv (fmul sg de) cr, Fin 0))"
  by (simp_all add: path_circle_f_def Let_def)

lemma flat_quotients_unit:
  assumes dn: "d = sqrt (x * x + y * y)" and pos: "0 < d"
    and a: "a = x / d \<or> a = - (x / d)" and b: "b = y / d \<or> b = - (y / d)"
  shows "vnorm_f (Fin a, Fin b, Fin 0) = Fin 1" and "vnorm_f (Fin b, Fin a, Fin 0) = Fin 1"
proof -
  have d3: "d = sqrt (x * x + y * y + 0 * 0)" using dn by simp
  have one: "(x / d) * (x / d) + (y / d) * (y / d) = 1"
    using unit_quotients [OF d3 pos] by simp
  have aa: "a * a = (x / d) * (x / d)" using a by auto
  have bb: "b * b = (y / d) * (y / d)" using b by auto
  show "vnorm_f (Fin a, Fin b, Fin 0) = Fin 1"
    using one by (intro vnorm_f_unit) (simp add: aa bb)
  show "vnorm_f (Fin b, Fin a, Fin 0) = Fin 1"
    using one by (intro vnorm_f_unit) (simp add: aa bb add.commute)
qed

lemma abs_le_norm2:
  "\<bar>x\<bar> \<le> sqrt (x * x + y * y)" "\<bar>y\<bar> \<le> sqrt (x * x + y * y)"
  using abs_le_norm3(1) [of x y 0] abs_le_norm3(2) [of y x 0] by simp_all

lemma path_circle_f_props:
  "(is_fin (hnorm_f (vsub_f c e)) \<longrightarrow>
      vnorm_f (path_direction_f (path_circle_f s e c st cw)) = Fin 1 \<and>
      vnorm_f (correction_direction_f (path_circle_f s e c st cw)) = Fin 1) \<and>
   (error_f (path_circle_f s e c st cw) = NaN \<or>
    fgeq (error_f (path_circle_f s e c st cw)) (Fin 0))"
proof -
  obtain s0 s1 s2 where s: "s = (s0, s1, s2)" by (cases s) auto
  obtain e0 e1 e2 where e: "e = (e0, e1, e2)" by (cases e) auto
  obtain c0 c1 c2 where c: "c = (c0, c1, c2)" by (cases c) auto
  define dn where "dn = fsub c0 e0"
  define de where "de = fsub c1 e1"
  define cr where "cr = fsqrtf (fadd (fmul dn dn) (fmul de de))"
  define rad where "rad = fsqrtf (fadd (fpowf_2 (fsub e0 s0)) (fpowf_2 (fsub e1 s1)))"
  define sg where "sg = (if fgreater (fsub rad cr) (Fin 0) then Fin 1 else Fin (- 1))"
  define r where "r = path_circle_f (s0, s1, s2) (e0, e1, e2) (c0, c1, c2) st cw"
  have len: "hnorm_f (vsub_f (c0, c1, c2) (e0, e1, e2)) = cr"
    by (simp add: hnorm_f_def vsub_f_def cr_def dn_def de_def)
  have err: "error_f r = (if fless cr (Fin small) then rad else ffabs (fsub rad cr))"
    unfolding r_def path_circle_f_fields
    by (simp add: cr_def dn_def de_def rad_def fpowf_2_def)
  have pd: "path_direction_f r =
      (if fless cr (Fin small) then (Fin 1, Fin 0, Fin 0)
       else if cw then (fdiv (fneg de) cr, fdiv dn cr, Fin 0)
       else (fdiv de cr, fdiv (fneg dn) cr, Fin 0))"
    unfolding r_def path_circle_f_fields Let_def
    by (simp add: cr_def dn_def de_def fpowf_2_def)
  have cd: "correction_direction_f r =
      (if fless cr (Fin small) then (Fin 0, Fin 1, Fin 0)
       else (fdiv (fmul sg dn) cr, fdiv (fmul sg de) cr, Fin 0))"
    unfolding r_def path_circle_f_fields Let_def
    by (simp add: cr_def dn_def de_def rad_def sg_def fpowf_2_def)
  have nonneg: "error_f r = NaN \<or> fgeq (error_f r) (Fin 0)"
    unfolding err rad_def
    using fsqrtf_never_negative [of "fadd (fpowf_2 (fsub e0 s0)) (fpowf_2 (fsub e1 s1))"]
      ffabs_never_negative [of "fsub (fsqrtf (fadd (fpowf_2 (fsub e0 s0)) (fpowf_2 (fsub e1 s1)))) cr"]
    by simp
  have unit: "vnorm_f (path_direction_f r) = Fin 1 \<and> vnorm_f (correction_direction_f r) = Fin 1"
    if fin: "is_fin cr"
  proof -
    obtain d where d: "cr = Fin d" using is_finD [OF fin] by blast
    obtain x y where xy: "dn = Fin x" "de = Fin y" and dd: "d = sqrt (x * x + y * y)"
      and bx: "\<bar>x\<bar> \<le> FLT_MAX" and bdy: "\<bar>y\<bar> \<le> FLT_MAX"
      using norm2_Fin [of dn de d] d unfolding cr_def by blast
    show ?thesis
    proof (cases "d < small")
      case True
      then show ?thesis by (simp add: pd cd d vnorm_f_x vnorm_f_y)
    next
      case False
      then have pos: "0 < d" using small_pos by linarith
      have qx: "fdiv (Fin x) (Fin d) = Fin (x / d)"
        using abs_le_norm2(1) [of x y] pos unfolding dd by (intro fdiv_by_norm)
      have qy: "fdiv (Fin y) (Fin d) = Fin (y / d)"
        using abs_le_norm2(2) [of y x] pos unfolding dd by (intro fdiv_by_norm)
      have qnx: "fdiv (Fin (- x)) (Fin d) = Fin (- (x / d))"
        using abs_le_norm2(1) [of x y] pos unfolding dd
        using fdiv_by_norm [of "- x" "sqrt (x * x + y * y)"] by simp
      have qny: "fdiv (Fin (- y)) (Fin d) = Fin (- (y / d))"
        using abs_le_norm2(2) [of y x] pos unfolding dd
        using fdiv_by_norm [of "- y" "sqrt (x * x + y * y)"] by simp
      have sgy: "fmul sg (Fin y) = Fin y \<and> fmul sg (Fin x) = Fin x
               \<or> fmul sg (Fin y) = Fin (- y) \<and> fmul sg (Fin x) = Fin (- x)"
        using bx bdy by (simp add: sg_def to_float_in_range)
      note u = flat_quotients_unit [OF dd pos]
      have p1: "vnorm_f (Fin (- (y / d)), Fin (x / d), Fin 0) = Fin 1" by (rule u(2)) simp_all
      have p2: "vnorm_f (Fin (y / d), Fin (- (x / d)), Fin 0) = Fin 1" by (rule u(2)) simp_all
      have k1: "vnorm_f (Fin (x / d), Fin (y / d), Fin 0) = Fin 1" by (rule u(1)) simp_all
      have k2: "vnorm_f (Fin (- (x / d)), Fin (- (y / d)), Fin 0) = Fin 1" by (rule u(1)) simp_all
      have pdu: "vnorm_f (path_direction_f r) = Fin 1"
        using False p1 p2
        by (simp add: pd d xy qx qy qnx qny del: fdiv.simps)
      have cdu: "vnorm_f (correction_direction_f r) = Fin 1"
        using False sgy k1 k2
        by (auto simp add: cd d xy qx qy qnx qny simp del: fdiv.simps fmul.simps)
      show ?thesis using pdu cdu by simp
    qed
  qed
  show ?thesis
    unfolding s e c len r_def [symmetric] using unit nonneg by blast
qed

subsection \<open>Inputs within reach\<close>

lemma within_reachD: "within_reach a \<Longrightarrow> \<exists>x. a = Fin x \<and> \<bar>x\<bar> \<le> reach"
  by (cases a) simp_all

lemma reach_pos: "0 \<le> reach" by (simp add: reach_def)

lemma reach_room: "48 * (reach * reach) \<le> FLT_MAX" "4 * reach \<le> FLT_MAX"
  by (simp_all add: reach_def FLT_MAX_def)

lemma to_float_nonneg: "0 \<le> r \<Longrightarrow> r \<le> FLT_MAX \<Longrightarrow> to_float r = Fin r"
  by (intro to_float_in_range) simp

lemma sq_le: "\<bar>x\<bar> \<le> K \<Longrightarrow> x * x \<le> K * (K::real)"
proof -
  assume a: "\<bar>x\<bar> \<le> K"
  have "\<bar>x\<bar> * \<bar>x\<bar> \<le> K * K" using a by (intro mult_mono) simp_all
  then show ?thesis by (simp add: abs_mult_self_eq)
qed

lemma prod_le: "\<bar>x\<bar> \<le> K \<Longrightarrow> \<bar>y\<bar> \<le> L \<Longrightarrow> \<bar>x * y\<bar> \<le> K * (L::real)"
proof -
  assume a: "\<bar>x\<bar> \<le> K" and b: "\<bar>y\<bar> \<le> L"
  have "\<bar>x\<bar> * \<bar>y\<bar> \<le> K * L" using a b by (intro mult_mono) simp_all
  then show ?thesis by (simp add: abs_mult)
qed

lemma fsub_Fin_bounded:
  assumes "\<bar>a\<bar> \<le> A" and "\<bar>b\<bar> \<le> B" and "A + B \<le> FLT_MAX"
  shows "fsub (Fin a) (Fin b) = Fin (a - b)" and "\<bar>a - b\<bar> \<le> A + B"
proof -
  show b: "\<bar>a - b\<bar> \<le> A + B" using assms by linarith
  have "\<bar>a - b\<bar> \<le> FLT_MAX" using b assms(3) by linarith
  then show "fsub (Fin a) (Fin b) = Fin (a - b)"
    by (simp add: fsub_def to_float_in_range)
qed

lemma norm3_Fin_bounded:
  assumes "\<bar>x\<bar> \<le> K" and "\<bar>y\<bar> \<le> K" and "\<bar>z\<bar> \<le> K" and "3 * (K * K) \<le> FLT_MAX"
  shows "fsqrtf (fadd (fadd (fmul (Fin x) (Fin x)) (fmul (Fin y) (Fin y))) (fmul (Fin z) (Fin z)))
           = Fin (sqrt (x * x + y * y + z * z))"
proof -
  have sx: "x * x \<le> K * K" and sy: "y * y \<le> K * K" and sz: "z * z \<le> K * K"
    using assms by (simp_all add: sq_le)
  have nn: "0 \<le> x * x" "0 \<le> y * y" "0 \<le> z * z" "0 \<le> K * K" by simp_all
  have 1: "to_float (x * x) = Fin (x * x)"
    using sx nn assms(4) by (intro to_float_nonneg) linarith+
  have 2: "to_float (y * y) = Fin (y * y)"
    using sy sx nn assms(4) by (intro to_float_nonneg) linarith+
  have 3: "to_float (z * z) = Fin (z * z)"
    using sz sx nn assms(4) by (intro to_float_nonneg) linarith+
  have n4: "0 \<le> x * x + y * y" using nn by linarith
  have 4: "to_float (x * x + y * y) = Fin (x * x + y * y)"
    using sx sy sz nn n4 assms(4) by (intro to_float_nonneg) linarith+
  have n5: "0 \<le> x * x + y * y + z * z" using nn by linarith
  have 5: "to_float (x * x + y * y + z * z) = Fin (x * x + y * y + z * z)"
    using sx sy sz nn n5 assms(4) by (intro to_float_nonneg) linarith+
  show ?thesis by (simp add: 1 2 3 4 5 not_less)
qed

lemma norm2_Fin_bounded:
  assumes "\<bar>x\<bar> \<le> K" and "\<bar>y\<bar> \<le> K" and "3 * (K * K) \<le> FLT_MAX"
  shows "fsqrtf (fadd (fmul (Fin x) (Fin x)) (fmul (Fin y) (Fin y))) = Fin (sqrt (x * x + y * y))"
proof -
  have sx: "x * x \<le> K * K" and sy: "y * y \<le> K * K"
    using assms by (simp_all add: sq_le)
  have nn: "0 \<le> x * x" "0 \<le> y * y" "0 \<le> K * K" by simp_all
  have 1: "to_float (x * x) = Fin (x * x)"
    using sx sy nn assms(3) by (intro to_float_nonneg) linarith+
  have 2: "to_float (y * y) = Fin (y * y)"
    using sy sx nn assms(3) by (intro to_float_nonneg) linarith+
  have n4: "0 \<le> x * x + y * y" using nn by linarith
  have 4: "to_float (x * x + y * y) = Fin (x * x + y * y)"
    using sx sy nn n4 assms(3) by (intro to_float_nonneg) linarith+
  show ?thesis by (simp add: 1 2 4 not_less)
qed

lemma path_endpoint_f_error_finite:
  assumes "point_within_reach e" and "point_within_reach c"
  shows "is_fin (error_f (path_endpoint_f s e c st m))"
proof -
  obtain s0 s1 s2 where s: "s = (s0, s1, s2)" by (cases s) auto
  obtain e0 e1 e2 where e: "e = (Fin e0, Fin e1, Fin e2)"
    and eb: "\<bar>e0\<bar> \<le> reach" "\<bar>e1\<bar> \<le> reach" "\<bar>e2\<bar> \<le> reach"
    using assms(1) unfolding point_within_reach_def
    by (cases e) (auto dest!: within_reachD)
  obtain c0 c1 c2 where c: "c = (Fin c0, Fin c1, Fin c2)"
    and cb: "\<bar>c0\<bar> \<le> reach" "\<bar>c1\<bar> \<le> reach" "\<bar>c2\<bar> \<le> reach"
    using assms(2) unfolding point_within_reach_def
    by (cases c) (auto dest!: within_reachD)
  have room: "reach + reach \<le> FLT_MAX" using reach_room(2) reach_pos by linarith
  note d0 = fsub_Fin_bounded [OF eb(1) cb(1) room]
  note d1 = fsub_Fin_bounded [OF eb(2) cb(2) room]
  note d2 = fsub_Fin_bounded [OF eb(3) cb(3) room]
  define z where "z = (if m then e2 - c2 else 0)"
  have z: "(if m then fsub (Fin e2) (Fin c2) else Fin 0) = Fin z" "\<bar>z\<bar> \<le> reach + reach"
    using d2 reach_pos by (simp_all add: z_def)
  have k: "3 * ((reach + reach) * (reach + reach)) \<le> FLT_MAX"
    by (simp add: reach_def FLT_MAX_def)
  have dd: "fsqrtf (fadd (fadd (fmul (Fin (e0 - c0)) (Fin (e0 - c0)))
                (fmul (Fin (e1 - c1)) (Fin (e1 - c1)))) (fmul (Fin z) (Fin z)))
            = Fin (sqrt ((e0 - c0) * (e0 - c0) + (e1 - c1) * (e1 - c1) + z * z))"
    by (rule norm3_Fin_bounded [OF d0(2) d1(2) z(2) k])
  have "error_f (path_endpoint_f (s0, s1, s2) (Fin e0, Fin e1, Fin e2) (Fin c0, Fin c1, Fin c2) st m)
        = (if sqrt ((e0 - c0) * (e0 - c0) + (e1 - c1) * (e1 - c1) + z * z) < small
           then Fin 0
           else Fin (sqrt ((e0 - c0) * (e0 - c0) + (e1 - c1) * (e1 - c1) + z * z)))"
    unfolding path_endpoint_f_simp Let_def d0(1) d1(1) z(1) dd by simp
  then show ?thesis unfolding s e c by simp
qed

lemma norm2_le_sum: "sqrt (x * x + y * y) \<le> \<bar>x\<bar> + \<bar>y\<bar>"
  using sqrt_sum_squares_le_sum_abs [of x y] by (simp add: power2_eq_square)

lemma path_circle_f_error_finite:
  assumes "point_within_reach s" and "point_within_reach e" and "point_within_reach c"
  shows "is_fin (error_f (path_circle_f s e c st cw))"
proof -
  obtain s0 s1 s2 where s: "s = (Fin s0, Fin s1, Fin s2)"
    and sb: "\<bar>s0\<bar> \<le> reach" "\<bar>s1\<bar> \<le> reach" "\<bar>s2\<bar> \<le> reach"
    using assms(1) unfolding point_within_reach_def
    by (cases s) (auto dest!: within_reachD)
  obtain e0 e1 e2 where e: "e = (Fin e0, Fin e1, Fin e2)"
    and eb: "\<bar>e0\<bar> \<le> reach" "\<bar>e1\<bar> \<le> reach" "\<bar>e2\<bar> \<le> reach"
    using assms(2) unfolding point_within_reach_def
    by (cases e) (auto dest!: within_reachD)
  obtain c0 c1 c2 where c: "c = (Fin c0, Fin c1, Fin c2)"
    and cb: "\<bar>c0\<bar> \<le> reach" "\<bar>c1\<bar> \<le> reach" "\<bar>c2\<bar> \<le> reach"
    using assms(3) unfolding point_within_reach_def
    by (cases c) (auto dest!: within_reachD)
  have room: "reach + reach \<le> FLT_MAX" using reach_room(2) reach_pos by linarith
  have k: "3 * ((reach + reach) * (reach + reach)) \<le> FLT_MAX"
    by (simp add: reach_def FLT_MAX_def)
  note rn = fsub_Fin_bounded [OF eb(1) sb(1) room]
  note re = fsub_Fin_bounded [OF eb(2) sb(2) room]
  note dn = fsub_Fin_bounded [OF cb(1) eb(1) room]
  note de = fsub_Fin_bounded [OF cb(2) eb(2) room]
  define R where "R = sqrt ((e0 - s0) * (e0 - s0) + (e1 - s1) * (e1 - s1))"
  define C where "C = sqrt ((c0 - e0) * (c0 - e0) + (c1 - e1) * (c1 - e1))"
  have rad: "fsqrtf (fadd (fpowf_2 (Fin (e0 - s0))) (fpowf_2 (Fin (e1 - s1)))) = Fin R"
    unfolding fpowf_2_def R_def by (rule norm2_Fin_bounded [OF rn(2) re(2) k])
  have cr: "fsqrtf (fadd (fpowf_2 (Fin (c0 - e0))) (fpowf_2 (Fin (c1 - e1)))) = Fin C"
    unfolding fpowf_2_def C_def by (rule norm2_Fin_bounded [OF dn(2) de(2) k])
  have Rb: "0 \<le> R" "R \<le> 4 * reach"
    using norm2_le_sum [of "e0 - s0" "e1 - s1"] rn(2) re(2) by (simp_all add: R_def)
  have Cb: "0 \<le> C" "C \<le> 4 * reach"
    using norm2_le_sum [of "c0 - e0" "c1 - e1"] dn(2) de(2) by (simp_all add: C_def)
  have "\<bar>R - C\<bar> \<le> FLT_MAX" using Rb Cb reach_room(2) by linarith
  then have diff: "fsub (Fin R) (Fin C) = Fin (R - C)"
    by (simp add: fsub_def to_float_in_range)
  have "error_f (path_circle_f (Fin s0, Fin s1, Fin s2) (Fin e0, Fin e1, Fin e2)
          (Fin c0, Fin c1, Fin c2) st cw) = (if C < small then Fin R else Fin \<bar>R - C\<bar>)"
    unfolding path_circle_f_fields rn(1) re(1) dn(1) de(1) rad cr diff by simp
  then show ?thesis unfolding s e c by simp
qed

lemma to_float_not_NaN: "to_float r \<noteq> NaN"
  by (simp add: to_float_def)

lemma fboundf_unit:
  assumes "v \<noteq> NaN"
  shows "\<exists>f. fboundf v (Fin 0) (Fin 1) = Fin f \<and> 0 \<le> f \<and> f \<le> 1"
  using assms by (cases v) (auto simp add: fboundf_def fgreater_def)

lemma corr_component:
  assumes f: "0 \<le> f" "f \<le> 1" and p: "\<bar>p\<bar> \<le> reach + reach"
    and s: "\<bar>s\<bar> \<le> reach" and c: "\<bar>c\<bar> \<le> reach"
  shows "\<exists>k. fsub (fadd (fmul (Fin f) (Fin p)) (Fin s)) (Fin c) = Fin k \<and> \<bar>k\<bar> \<le> 4 * reach"
proof -
  have "\<bar>f * p\<bar> \<le> 1 * (reach + reach)" using f p by (intro prod_le) simp_all
  then have fp: "\<bar>f * p\<bar> \<le> reach + reach" by simp
  have 1: "fmul (Fin f) (Fin p) = Fin (f * p)"
    using fp reach_room(2) reach_pos by (simp add: to_float_in_range)
  have b2: "\<bar>f * p + s\<bar> \<le> 3 * reach" using fp s by linarith
  have 2: "fadd (Fin (f * p)) (Fin s) = Fin (f * p + s)"
    using b2 reach_room(2) reach_pos by (simp add: to_float_in_range)
  have b3: "\<bar>f * p + s - c\<bar> \<le> 4 * reach" using b2 c by linarith
  have 3: "fsub (Fin (f * p + s)) (Fin c) = Fin (f * p + s - c)"
    using b3 reach_room(2) by (simp add: fsub_def to_float_in_range)
  show ?thesis using 1 2 3 b3 by simp
qed

lemma dot_finite:
  assumes "\<bar>p0\<bar> \<le> K" "\<bar>p1\<bar> \<le> K" "\<bar>p2\<bar> \<le> K" "\<bar>q0\<bar> \<le> K" "\<bar>q1\<bar> \<le> K" "\<bar>q2\<bar> \<le> K"
    and "3 * (K * K) \<le> FLT_MAX"
  shows "fadd (fadd (fmul (Fin p0) (Fin q0)) (fmul (Fin p1) (Fin q1))) (fmul (Fin p2) (Fin q2))
           = Fin (p0 * q0 + p1 * q1 + p2 * q2)"
proof -
  have b: "\<bar>p0 * q0\<bar> \<le> K * K" "\<bar>p1 * q1\<bar> \<le> K * K" "\<bar>p2 * q2\<bar> \<le> K * K"
    using assms by (simp_all add: prod_le)
  have nn: "0 \<le> K * K" by simp
  have 1: "to_float (p0 * q0) = Fin (p0 * q0)"
    using b nn assms(7) by (intro to_float_in_range) linarith
  have 2: "to_float (p1 * q1) = Fin (p1 * q1)"
    using b nn assms(7) by (intro to_float_in_range) linarith
  have 3: "to_float (p2 * q2) = Fin (p2 * q2)"
    using b nn assms(7) by (intro to_float_in_range) linarith
  have 4: "to_float (p0 * q0 + p1 * q1) = Fin (p0 * q0 + p1 * q1)"
    using b nn assms(7) by (intro to_float_in_range) linarith
  have 5: "to_float (p0 * q0 + p1 * q1 + p2 * q2) = Fin (p0 * q0 + p1 * q1 + p2 * q2)"
    using b nn assms(7) by (intro to_float_in_range) linarith
  show ?thesis by (simp add: 1 2 3 4 5)
qed

lemma path_vector_f_error_finite:
  assumes "point_within_reach s" and "point_within_reach e" and "point_within_reach c"
  shows "is_fin (error_f (path_vector_f s e c st m))"
proof -
  obtain s0 s1 s2 where s: "s = (Fin s0, Fin s1, Fin s2)"
    and sb: "\<bar>s0\<bar> \<le> reach" "\<bar>s1\<bar> \<le> reach" "\<bar>s2\<bar> \<le> reach"
    using assms(1) unfolding point_within_reach_def
    by (cases s) (auto dest!: within_reachD)
  obtain e0 e1 e2 where e: "e = (Fin e0, Fin e1, Fin e2)"
    and eb: "\<bar>e0\<bar> \<le> reach" "\<bar>e1\<bar> \<le> reach" "\<bar>e2\<bar> \<le> reach"
    using assms(2) unfolding point_within_reach_def
    by (cases e) (auto dest!: within_reachD)
  obtain c0 c1 c2 where c: "c = (Fin c0, Fin c1, Fin c2)"
    and cb: "\<bar>c0\<bar> \<le> reach" "\<bar>c1\<bar> \<le> reach" "\<bar>c2\<bar> \<le> reach"
    using assms(3) unfolding point_within_reach_def
    by (cases c) (auto dest!: within_reachD)
  have room: "reach + reach \<le> FLT_MAX" using reach_room(2) reach_pos by linarith
  have k: "3 * ((reach + reach) * (reach + reach)) \<le> FLT_MAX"
    by (simp add: reach_def FLT_MAX_def)
  have k4: "3 * ((4 * reach) * (4 * reach)) \<le> FLT_MAX"
    by (simp add: reach_def FLT_MAX_def)
  note p0 = fsub_Fin_bounded [OF eb(1) sb(1) room]
  note p1 = fsub_Fin_bounded [OF eb(2) sb(2) room]
  note p2' = fsub_Fin_bounded [OF eb(3) sb(3) room]
  note q0 = fsub_Fin_bounded [OF cb(1) sb(1) room]
  note q1 = fsub_Fin_bounded [OF cb(2) sb(2) room]
  note q2' = fsub_Fin_bounded [OF cb(3) sb(3) room]
  define p2 where "p2 = (if m then e2 - s2 else 0)"
  define q2 where "q2 = (if m then c2 - s2 else 0)"
  have p2: "(if m then fsub (Fin e2) (Fin s2) else Fin 0) = Fin p2" "\<bar>p2\<bar> \<le> reach + reach"
    using p2' reach_pos by (simp_all add: p2_def)
  have q2: "(if m then fsub (Fin c2) (Fin s2) else Fin 0) = Fin q2" "\<bar>q2\<bar> \<le> reach + reach"
    using q2' reach_pos by (simp_all add: q2_def)
  define D where "D = sqrt ((e0 - s0) * (e0 - s0) + (e1 - s1) * (e1 - s1) + p2 * p2)"
  have dp: "fsqrtf (fadd (fadd (fmul (Fin (e0 - s0)) (Fin (e0 - s0)))
                (fmul (Fin (e1 - s1)) (Fin (e1 - s1)))) (fmul (Fin p2) (Fin p2))) = Fin D"
    unfolding D_def by (rule norm3_Fin_bounded [OF p0(2) p1(2) p2(2) k])
  have dot: "fadd (fadd (fmul (Fin (e0 - s0)) (Fin (c0 - s0))) (fmul (Fin (e1 - s1)) (Fin (c1 - s1))))
               (fmul (Fin p2) (Fin q2))
             = Fin ((e0 - s0) * (c0 - s0) + (e1 - s1) * (c1 - s1) + p2 * q2)"
    by (rule dot_finite [OF p0(2) p1(2) p2(2) q0(2) q1(2) q2(2) k])
  define FP where "FP = (if fgreater (Fin D) (Fin small)
       then fboundf (fdiv (Fin ((e0 - s0) * (c0 - s0) + (e1 - s1) * (c1 - s1) + p2 * q2))
                      (fmul (Fin D) (Fin D))) (Fin 0) (Fin 1)
       else fboundf (Fin 1) (Fin 0) (Fin 1))"
  have "fmul (Fin D) (Fin D) \<noteq> NaN" by (simp add: to_float_not_NaN)
  have quot: "fdiv (Fin a) (fmul (Fin D) (Fin D)) \<noteq> NaN" if "small < D" for a
  proof -
    have pos: "0 < D" using that small_pos by linarith
    have DD: "D * D = (e0 - s0) * (e0 - s0) + (e1 - s1) * (e1 - s1) + p2 * p2"
      by (simp add: D_def)
    have "D * D \<le> 3 * ((reach + reach) * (reach + reach))"
      unfolding DD using sq_le [OF p0(2)] sq_le [OF p1(2)] sq_le [OF p2(2)] by linarith
    then have "to_float (D * D) = Fin (D * D)"
      using k by (intro to_float_nonneg) simp_all
    then show ?thesis using pos by (simp add: to_float_not_NaN)
  qed
  obtain f where f: "FP = Fin f" "0 \<le> f" "f \<le> 1"
  proof (cases "small < D")
    case True
    then show ?thesis
      using fboundf_unit [OF quot [OF True]] that by (auto simp add: FP_def fgreater_def)
  next
    case False
    then show ?thesis
      using fboundf_unit [of "Fin 1"] that by (auto simp add: FP_def fgreater_def)
  qed
  obtain k0 where k0: "fsub (fadd (fmul (Fin f) (Fin (e0 - s0))) (Fin s0)) (Fin c0) = Fin k0"
    "\<bar>k0\<bar> \<le> 4 * reach"
    using corr_component [OF f(2,3) p0(2) sb(1) cb(1)] by blast
  obtain k1 where k1: "fsub (fadd (fmul (Fin f) (Fin (e1 - s1))) (Fin s1)) (Fin c1) = Fin k1"
    "\<bar>k1\<bar> \<le> 4 * reach"
    using corr_component [OF f(2,3) p1(2) sb(2) cb(2)] by blast
  obtain k2 where k2: "fsub (fadd (fmul (Fin f) (Fin p2)) (Fin s2)) (Fin c2) = Fin k2"
    "\<bar>k2\<bar> \<le> 4 * reach"
    using corr_component [OF f(2,3) p2(2) sb(3) cb(3)] by blast
  have err: "fsqrtf (fadd (fadd (fmul (Fin k0) (Fin k0)) (fmul (Fin k1) (Fin k1)))
                (fmul (Fin k2) (Fin k2))) = Fin (sqrt (k0 * k0 + k1 * k1 + k2 * k2))"
    by (rule norm3_Fin_bounded [OF k0(2) k1(2) k2(2) k4])
  have "error_f (path_vector_f (Fin s0, Fin s1, Fin s2) (Fin e0, Fin e1, Fin e2)
          (Fin c0, Fin c1, Fin c2) st m) = Fin (sqrt (k0 * k0 + k1 * k1 + k2 * k2))"
    unfolding path_vector_f_simp Let_def p0(1) p1(1) p2(1) q0(1) q1(1) q2(1) dp dot
      FP_def [symmetric] f(1) k0(1) k1(1) k2(1) err
    by simp
  then show ?thesis unfolding s e c by simp
qed

lemma small_within_reach:
  "point_within_reach (Fin 0, Fin 0, Fin 0)"
  "point_within_reach (Fin 10, Fin 0, Fin 0)"
  "point_within_reach (Fin 5, Fin 0, Fin 0)"
  "point_within_reach (Fin 5, Fin 5, Fin 0)"
  "point_within_reach (Fin 20, Fin 0, Fin 0)"
  by (simp_all add: point_within_reach_def reach_def)

subsection \<open>The dispatcher over floats\<close>

lemma path_progress_f_select:
  "path_progress_f M s e c st mode = run_solver_f (select_solver M mode) s e c st"
  by (simp add: path_progress_f_def select_solver_def)

lemma path_progress_f_known:
  assumes "modes_distinct M"
  shows "path_progress_f M s e c st (PATHDESIRED_MODE_FLYVECTOR M) = path_vector_f s e c st True"
    and "path_progress_f M s e c st (PATHDESIRED_MODE_FLYCIRCLELEFT M) = path_circle_f s e c st False"
    and "path_progress_f M s e c st (PATHDESIRED_MODE_FLYENDPOINT M) = path_endpoint_f s e c st True"
  by (simp_all add: path_progress_f_select select_known [OF assms])

text \<open>
  C8, as amended. After every call of \<open>path_progress\<close>, for every input, infinities and NaN
  included: the correction direction of the endpoint solver is the zero vector; and
  whenever the length a solver divides by is a finite number, the direction it writes
  has length 1 or is a documented fallback. In detail: the endpoint path direction has
  length 1 when \<open>|diff|\<close> is finite; the vector path direction has length 1 or is the zero
  vector when \<open>|path|\<close> is finite, and the vector correction direction has length 1 when
  the error is finite; both circle directions have length 1 when \<open>cradius\<close> is finite.
  The fixed fallbacks \<open>(0,0,1)\<close>, \<open>(0,1,0)\<close> and \<open>(1,0,0)\<close> have length 1 themselves.
\<close>

theorem path_progress_f_unit_directions:
  "let r = path_progress_f M start_point end_point cur_point status mode
   in (case select_solver M mode of
         Endpoint mode3D \<Rightarrow>
           correction_direction_f r = fzero \<and>
           (is_fin (vnorm_f (flat_f mode3D (vsub_f end_point cur_point))) \<longrightarrow>
              vnorm_f (path_direction_f r) = Fin 1)
       | Vector mode3D \<Rightarrow>
           (is_fin (vnorm_f (flat_f mode3D (vsub_f end_point start_point))) \<longrightarrow>
              vnorm_f (path_direction_f r) = Fin 1 \<or> path_direction_f r = fzero) \<and>
           (is_fin (error_f r) \<longrightarrow> vnorm_f (correction_direction_f r) = Fin 1)
       | Circle clockwise \<Rightarrow>
           (is_fin (hnorm_f (vsub_f cur_point end_point)) \<longrightarrow>
              vnorm_f (path_direction_f r) = Fin 1 \<and>
              vnorm_f (correction_direction_f r) = Fin 1))"
  unfolding Let_def path_progress_f_select fzero_def
  using path_endpoint_f_props [of start_point end_point cur_point status]
    path_vector_f_props [of _ end_point start_point cur_point status]
    path_circle_f_props [of cur_point end_point start_point status]
  by (cases "select_solver M mode") simp_all

text \<open>The inputs of the two examples of overflow: \<open>2\<^sup>7\<^sup>0\<close> is a float, its square is not.\<close>

lemma two_pow_70_finite: "to_float 1180591620717411303424 = Fin 1180591620717411303424"
  by (simp add: to_float_def FLT_MAX_def)

lemma two_pow_140_overflows:
  "to_float 1393796574908163946345982392040522594123776 = PInf"
  by (simp add: to_float_def FLT_MAX_def)

text \<open>
  C8 as stated fails when a length overflows. Flying to the endpoint \<open>(2\<^sup>7\<^sup>0, 0, 0)\<close> from
  the origin, the square of \<open>diff[0]\<close> is infinite, so \<open>dist_diff\<close> is infinite, the test
  \<open>dist_diff < 1e-6\<close> fails, and the path direction is \<open>diff / dist_diff = (0,0,0)\<close>: not
  of length 1, and not a fallback the endpoint solver sets for its path direction.
\<close>

theorem path_progress_f_unit_directions_counterexample:
  "select_solver modes0 (PATHDESIRED_MODE_FLYENDPOINT modes0) = Endpoint True \<and>
   path_direction_f
     (path_progress_f modes0 (Fin 0, Fin 0, Fin 0) (Fin 1180591620717411303424, Fin 0, Fin 0)
        (Fin 0, Fin 0, Fin 0) status0_f (PATHDESIRED_MODE_FLYENDPOINT modes0)) = (Fin 0, Fin 0, Fin 0) \<and>
   vnorm_f (Fin 0, Fin 0, Fin 0) = Fin 0"
proof -
  have a: "path_direction_f
     (path_endpoint_f (Fin 0, Fin 0, Fin 0) (Fin 1180591620717411303424, Fin 0, Fin 0)
        (Fin 0, Fin 0, Fin 0) status0_f True) = (Fin 0, Fin 0, Fin 0)"
    by (simp add: path_endpoint_f_simp Let_def fsub_def two_pow_70_finite two_pow_140_overflows
          to_float_unit)
  have b: "vnorm_f (Fin 0, Fin 0, Fin 0) = Fin 0"
    by (simp add: vnorm_f_def to_float_unit)
  show ?thesis
    using a b
    by (simp add: path_progress_f_known [OF modes0_distinct] select_known [OF modes0_distinct])
qed

text \<open>One call of each solver with finite lengths.\<close>

theorem path_progress_f_unit_directions_witness:
  "is_fin (vnorm_f (flat_f True (vsub_f (Fin 10, Fin 0, Fin 0) (Fin 5, Fin 0, Fin 0)))) \<and>
   vnorm_f (path_direction_f (path_progress_f modes0 (Fin 0, Fin 0, Fin 0) (Fin 10, Fin 0, Fin 0)
     (Fin 5, Fin 0, Fin 0) status0_f (PATHDESIRED_MODE_FLYENDPOINT modes0))) = Fin 1 \<and>
   is_fin (vnorm_f (flat_f True (vsub_f (Fin 10, Fin 0, Fin 0) (Fin 0, Fin 0, Fin 0)))) \<and>
   (vnorm_f (path_direction_f (path_progress_f modes0 (Fin 0, Fin 0, Fin 0) (Fin 10, Fin 0, Fin 0)
      (Fin 5, Fin 5, Fin 0) status0_f (PATHDESIRED_MODE_FLYVECTOR modes0))) = Fin 1 \<or>
    path_direction_f (path_progress_f modes0 (Fin 0, Fin 0, Fin 0) (Fin 10, Fin 0, Fin 0)
      (Fin 5, Fin 5, Fin 0) status0_f (PATHDESIRED_MODE_FLYVECTOR modes0)) = fzero) \<and>
   is_fin (error_f (path_progress_f modes0 (Fin 0, Fin 0, Fin 0) (Fin 10, Fin 0, Fin 0)
     (Fin 5, Fin 5, Fin 0) status0_f (PATHDESIRED_MODE_FLYVECTOR modes0))) \<and>
   vnorm_f (correction_direction_f (path_progress_f modes0 (Fin 0, Fin 0, Fin 0)
     (Fin 10, Fin 0, Fin 0) (Fin 5, Fin 5, Fin 0) status0_f (PATHDESIRED_MODE_FLYVECTOR modes0)))
     = Fin 1 \<and>
   is_fin (hnorm_f (vsub_f (Fin 20, Fin 0, Fin 0) (Fin 10, Fin 0, Fin 0))) \<and>
   vnorm_f (path_direction_f (path_progress_f modes0 (Fin 0, Fin 0, Fin 0) (Fin 10, Fin 0, Fin 0)
     (Fin 20, Fin 0, Fin 0) status0_f (PATHDESIRED_MODE_FLYCIRCLELEFT modes0))) = Fin 1 \<and>
   vnorm_f (correction_direction_f (path_progress_f modes0 (Fin 0, Fin 0, Fin 0)
     (Fin 10, Fin 0, Fin 0) (Fin 20, Fin 0, Fin 0) status0_f
     (PATHDESIRED_MODE_FLYCIRCLELEFT modes0))) = Fin 1"
proof -
  note ev = vnorm_f_def hnorm_f_def flat_f_def vsub_f_def fsub_def to_float_def FLT_MAX_def
  have h1: "is_fin (vnorm_f (flat_f True (vsub_f (Fin 10, Fin 0, Fin 0) (Fin 5, Fin 0, Fin 0))))"
    by (simp add: ev)
  have h2: "is_fin (vnorm_f (flat_f True (vsub_f (Fin 10, Fin 0, Fin 0) (Fin 0, Fin 0, Fin 0))))"
    by (simp add: ev)
  have h3: "is_fin (error_f (path_progress_f modes0 (Fin 0, Fin 0, Fin 0) (Fin 10, Fin 0, Fin 0)
     (Fin 5, Fin 5, Fin 0) status0_f (PATHDESIRED_MODE_FLYVECTOR modes0)))"
    unfolding path_progress_f_known [OF modes0_distinct]
    by (intro path_vector_f_error_finite small_within_reach)
  have h4: "is_fin (hnorm_f (vsub_f (Fin 20, Fin 0, Fin 0) (Fin 10, Fin 0, Fin 0)))"
    by (simp add: ev)
  note t1 = path_progress_f_unit_directions
    [of modes0 "(Fin 0, Fin 0, Fin 0)" "(Fin 10, Fin 0, Fin 0)" "(Fin 5, Fin 0, Fin 0)" status0_f
      "PATHDESIRED_MODE_FLYENDPOINT modes0", unfolded Let_def select_known [OF modes0_distinct]]
  note t2 = path_progress_f_unit_directions
    [of modes0 "(Fin 0, Fin 0, Fin 0)" "(Fin 10, Fin 0, Fin 0)" "(Fin 5, Fin 5, Fin 0)" status0_f
      "PATHDESIRED_MODE_FLYVECTOR modes0", unfolded Let_def select_known [OF modes0_distinct]]
  note t3 = path_progress_f_unit_directions
    [of modes0 "(Fin 0, Fin 0, Fin 0)" "(Fin 10, Fin 0, Fin 0)" "(Fin 20, Fin 0, Fin 0)" status0_f
      "PATHDESIRED_MODE_FLYCIRCLELEFT modes0", unfolded Let_def select_known [OF modes0_distinct]]
  have c1: "vnorm_f (path_direction_f (path_progress_f modes0 (Fin 0, Fin 0, Fin 0)
     (Fin 10, Fin 0, Fin 0) (Fin 5, Fin 0, Fin 0) status0_f (PATHDESIRED_MODE_FLYENDPOINT modes0)))
     = Fin 1"
    using t1 h1 by simp
  have c2: "vnorm_f (correction_direction_f (path_progress_f modes0 (Fin 0, Fin 0, Fin 0)
     (Fin 10, Fin 0, Fin 0) (Fin 5, Fin 5, Fin 0) status0_f (PATHDESIRED_MODE_FLYVECTOR modes0)))
     = Fin 1"
    using t2 h3 by simp
  have c2b: "vnorm_f (path_direction_f (path_progress_f modes0 (Fin 0, Fin 0, Fin 0)
      (Fin 10, Fin 0, Fin 0) (Fin 5, Fin 5, Fin 0) status0_f (PATHDESIRED_MODE_FLYVECTOR modes0)))
      = Fin 1 \<or>
    path_direction_f (path_progress_f modes0 (Fin 0, Fin 0, Fin 0) (Fin 10, Fin 0, Fin 0)
      (Fin 5, Fin 5, Fin 0) status0_f (PATHDESIRED_MODE_FLYVECTOR modes0)) = fzero"
    using t2 h2 by simp
  have c3: "vnorm_f (path_direction_f (path_progress_f modes0 (Fin 0, Fin 0, Fin 0)
     (Fin 10, Fin 0, Fin 0) (Fin 20, Fin 0, Fin 0) status0_f
     (PATHDESIRED_MODE_FLYCIRCLELEFT modes0))) = Fin 1 \<and>
     vnorm_f (correction_direction_f (path_progress_f modes0 (Fin 0, Fin 0, Fin 0)
     (Fin 10, Fin 0, Fin 0) (Fin 20, Fin 0, Fin 0) status0_f
     (PATHDESIRED_MODE_FLYCIRCLELEFT modes0))) = Fin 1"
    using t3 h4 by simp
  show ?thesis using h1 h2 h3 h4 c1 c2 c2b c3 by blast
qed

text \<open>
  C9, as amended. After every call of \<open>path_progress\<close>, in every mode and for every input,
  infinities and NaN included, the error field is never negative: it is a non-negative
  number, plus infinity, or NaN. When the coordinates of the three points are finite and
  at most \<open>2\<^sup>6\<^sup>0\<close> in magnitude, the error is a finite non-negative number.
\<close>

theorem path_progress_f_error_sign:
  "(error_f (path_progress_f M start_point end_point cur_point status mode) = NaN \<or>
    fgeq (error_f (path_progress_f M start_point end_point cur_point status mode)) (Fin 0)) \<and>
   (point_within_reach start_point \<and> point_within_reach end_point \<and>
    point_within_reach cur_point \<longrightarrow>
      is_fin (error_f (path_progress_f M start_point end_point cur_point status mode)) \<and>
      fgeq (error_f (path_progress_f M start_point end_point cur_point status mode)) (Fin 0))"
proof -
  define r where "r = path_progress_f M start_point end_point cur_point status mode"
  have a: "error_f r = NaN \<or> fgeq (error_f r) (Fin 0)"
    unfolding r_def path_progress_f_select
    using path_endpoint_f_props [of start_point end_point cur_point status]
      path_vector_f_props [of _ end_point start_point cur_point status]
      path_circle_f_props [of cur_point end_point start_point status]
    by (cases "select_solver M mode") simp_all
  have b: "is_fin (error_f r)"
    if "point_within_reach start_point" "point_within_reach end_point"
      "point_within_reach cur_point"
    unfolding r_def path_progress_f_select
    using that path_endpoint_f_error_finite [of end_point cur_point start_point status]
      path_vector_f_error_finite [of start_point end_point cur_point status]
      path_circle_f_error_finite [of start_point end_point cur_point status]
    by (cases "select_solver M mode") simp_all
  have c: "fgeq (error_f r) (Fin 0)" if "is_fin (error_f r)"
    using a that by (cases "error_f r") simp_all
  show ?thesis
    unfolding r_def [symmetric] using a b c by blast
qed

text \<open>Off the track of a fly-vector path, all points within reach.\<close>

theorem path_progress_f_error_sign_witness:
  "point_within_reach (Fin 0, Fin 0, Fin 0) \<and> point_within_reach (Fin 10, Fin 0, Fin 0) \<and>
   point_within_reach (Fin 5, Fin 5, Fin 0) \<and>
   is_fin (error_f (path_progress_f modes0 (Fin 0, Fin 0, Fin 0) (Fin 10, Fin 0, Fin 0)
     (Fin 5, Fin 5, Fin 0) status0_f (PATHDESIRED_MODE_FLYVECTOR modes0))) \<and>
   fgeq (error_f (path_progress_f modes0 (Fin 0, Fin 0, Fin 0) (Fin 10, Fin 0, Fin 0)
     (Fin 5, Fin 5, Fin 0) status0_f (PATHDESIRED_MODE_FLYVECTOR modes0))) (Fin 0)"
  using small_within_reach
    path_progress_f_error_sign [of modes0 "(Fin 0, Fin 0, Fin 0)" "(Fin 10, Fin 0, Fin 0)"
      "(Fin 5, Fin 5, Fin 0)" status0_f "PATHDESIRED_MODE_FLYVECTOR modes0"]
  by simp

text \<open>
  C9 as stated fails when both radii overflow. With the start at the origin, the centre
  at \<open>(2\<^sup>7\<^sup>0, 0, 0)\<close> and the current point at \<open>(2\<^sup>7\<^sup>1, 0, 0)\<close>, \<open>radius\<close> and \<open>cradius\<close> are
  both infinite, and the error is \<open>fabs (radius - cradius)\<close>, which is NaN: the comparison
  \<open>error \<ge> 0\<close> is false.
\<close>

theorem path_progress_f_error_counterexample:
  "error_f
     (path_progress_f modes0 (Fin 0, Fin 0, Fin 0) (Fin 1180591620717411303424, Fin 0, Fin 0)
        (Fin 2361183241434822606848, Fin 0, Fin 0) status0_f
        (PATHDESIRED_MODE_FLYCIRCLELEFT modes0)) = NaN \<and>
   \<not> fgeq NaN (Fin 0)"
proof -
  have d: "to_float (2361183241434822606848 - 1180591620717411303424) = Fin 1180591620717411303424"
    by (simp add: to_float_def FLT_MAX_def)
  have a: "error_f
     (path_circle_f (Fin 0, Fin 0, Fin 0) (Fin 1180591620717411303424, Fin 0, Fin 0)
        (Fin 2361183241434822606848, Fin 0, Fin 0) status0_f False) = NaN"
    unfolding path_circle_f_fields
    by (simp add: fsub_def fpowf_2_def two_pow_70_finite two_pow_140_overflows d to_float_unit)
  show ?thesis
    using a by (simp add: path_progress_f_known [OF modes0_distinct])
qed

end
